theory Spec2Isabelle
  imports Main "HOL-Library.Multiset"
begin

section \<open>JavaScript values and errors\<close>

text \<open>
  The GitHub payloads are typed \<open>any\<close> in the source, and TypeScript's annotations are
  erased at run time, so every value that comes out of a response is a JavaScript value.
  Numbers are the integers among JavaScript's numbers (identifiers, counts and epoch
  milliseconds) and \<open>Infinity\<close>; a number that a payload holds is the number that parsing
  the payload gave. An object is an association list; a property read takes the first
  binding of the key.
\<close>

datatype jsval =
    JUndefined
  | JNull
  | JBool bool
  | JNum int
  | JInfinity
  | JStr string
  | JArr "jsval list"
  | JObj "(string \<times> jsval) list"

text \<open>
  What the code can throw: \<open>new Error(message)\<close>, the \<open>TypeError\<close> of a property read on
  \<open>null\<close>/\<open>undefined\<close>, of a call of something that is not a function and of a failed
  \<open>fetch\<close>, the \<open>SyntaxError\<close> of \<open>response.json()\<close> on a malformed body, and the
  \<open>DOMException\<close> of \<open>atob\<close>.
\<close>

datatype error = Error string | TypeError | SyntaxError | InvalidCharacterError

fun truthy :: "jsval \<Rightarrow> bool" where
  "truthy JUndefined = False"
| "truthy JNull = False"
| "truthy (JBool b) = b"
| "truthy (JNum n) = (n \<noteq> 0)"
| "truthy JInfinity = True"
| "truthy (JStr s) = (s \<noteq> [])"
| "truthy (JArr xs) = True"
| "truthy (JObj kvs) = True"

text \<open>\<open>v.k\<close>: throws on \<open>null\<close> and \<open>undefined\<close>; \<open>undefined\<close> where the key is missing.\<close>

fun get_prop :: "jsval \<Rightarrow> string \<Rightarrow> error + jsval" where
  "get_prop JUndefined k = Inl TypeError"
| "get_prop JNull k = Inl TypeError"
| "get_prop (JObj kvs) k = Inr (case map_of kvs k of None \<Rightarrow> JUndefined | Some v \<Rightarrow> v)"
| "get_prop v k = Inr JUndefined"

text \<open>\<open>v?.k\<close>: \<open>undefined\<close> on \<open>null\<close> and \<open>undefined\<close>, never throws.\<close>

fun opt_prop :: "jsval \<Rightarrow> string \<Rightarrow> jsval" where
  "opt_prop (JObj kvs) k = (case map_of kvs k of None \<Rightarrow> JUndefined | Some v \<Rightarrow> v)"
| "opt_prop v k = JUndefined"

text \<open>\<open>a || b\<close>\<close>

definition js_or :: "jsval \<Rightarrow> jsval \<Rightarrow> jsval" where
  "js_or a b = (if truthy a then a else b)"

text \<open>The receiver of \<open>.map\<close>, \<open>.filter\<close>: anything but an array has no such method.\<close>

fun as_array :: "jsval \<Rightarrow> error + jsval list" where
  "as_array (JArr xs) = Inr xs"
| "as_array v = Inl TypeError"

text \<open>\<open>xs.map(f)\<close> and \<open>xs.filter(f)\<close> with a callback that may throw: the first throw wins.\<close>

fun map_throwing :: "('a \<Rightarrow> error + 'b) \<Rightarrow> 'a list \<Rightarrow> error + 'b list" where
  "map_throwing f [] = Inr []"
| "map_throwing f (x # xs) =
     (case f x of
        Inl e \<Rightarrow> Inl e
      | Inr y \<Rightarrow> (case map_throwing f xs of Inl e \<Rightarrow> Inl e | Inr ys \<Rightarrow> Inr (y # ys)))"

fun filter_throwing :: "('a \<Rightarrow> error + bool) \<Rightarrow> 'a list \<Rightarrow> error + 'a list" where
  "filter_throwing f [] = Inr []"
| "filter_throwing f (x # xs) =
     (case f x of
        Inl e \<Rightarrow> Inl e
      | Inr b \<Rightarrow>
          (case filter_throwing f xs of
             Inl e \<Rightarrow> Inl e
           | Inr ys \<Rightarrow> Inr (if b then x # ys else ys)))"

subsection \<open>Strings\<close>

text \<open>\<open>String.prototype.toLowerCase\<close> on the ASCII letters (GitHub logins are ASCII).\<close>

definition lower_char :: "char \<Rightarrow> char" where
  "lower_char c =
     (if (65::nat) \<le> of_char c \<and> of_char c \<le> (90::nat)
      then char_of (of_char c + (32::nat)) else c)"

definition toLowerCase :: "string \<Rightarrow> string" where
  "toLowerCase s = map lower_char s"

text \<open>\<open>Array.prototype.join\<close>\<close>

fun join :: "string \<Rightarrow> string list \<Rightarrow> string" where
  "join sep [] = []"
| "join sep [x] = x"
| "join sep (x # y # ys) = x @ sep @ join sep (y # ys)"

text \<open>\<open>s.split(c)\<close> for a one-character separator: never empty.\<close>

fun split :: "char \<Rightarrow> string \<Rightarrow> string list" where
  "split c [] = [[]]"
| "split c (x # xs) =
     (if x = c then [] # split c xs
      else (case split c xs of [] \<Rightarrow> [[x]] | p # ps \<Rightarrow> (x # p) # ps))"

text \<open>\<open>String.prototype.trim\<close>, for the white space of ASCII.\<close>

definition is_space :: "char \<Rightarrow> bool" where
  "is_space c = (c = CHR '' '' \<or> c = CHR 0x09 \<or> c = CHR 0x0A \<or> c = CHR 0x0B
                 \<or> c = CHR 0x0C \<or> c = CHR 0x0D)"

definition trim :: "string \<Rightarrow> string" where
  "trim s = rev (dropWhile is_space (rev (dropWhile is_space s)))"

definition is_digit :: "char \<Rightarrow> bool" where
  "is_digit c = ((48::nat) \<le> of_char c \<and> of_char c \<le> (57::nat))"

text \<open>\<open>Number.prototype.toString\<close> on a natural number.\<close>

fun toString :: "nat \<Rightarrow> string" where
  "toString n =
     (if n < 10 then [char_of (48 + n)]
      else toString (n div 10) @ [char_of (48 + n mod 10)])"

section \<open>Cache\<close>

record CacheEntry =
  data :: jsval
  timestamp :: int

text \<open>
  The module-level \<open>Map\<close>, the clock that \<open>Date.now()\<close> reads and the requests sent so far
  make up the state every function threads.
\<close>

datatype request = Request (http_method: string) (url: string)
  (headers: "(string \<times> string) list") (payload: "string option")

record world =
  cache :: "string \<rightharpoonup> CacheEntry"
  now :: int
  sent :: "request list"

definition CACHE_TTL :: int where
  "CACHE_TTL = 5 * 60 * 1000"

definition getCached :: "string \<Rightarrow> world \<Rightarrow> jsval \<times> world" where
  "getCached key w =
     (case cache w key of
        None \<Rightarrow> (JNull, w)
      | Some entry \<Rightarrow>
          if now w - timestamp entry > CACHE_TTL
          then (JNull, w\<lparr>cache := (cache w)(key := None)\<rparr>)
          else (data entry, w))"

definition setCache :: "string \<Rightarrow> jsval \<Rightarrow> world \<Rightarrow> world" where
  "setCache key d w = w\<lparr>cache := (cache w)(key \<mapsto> \<lparr>data = d, timestamp = now w\<rparr>)\<rparr>"

section \<open>Query builders\<close>

text \<open>\<open>/[.\-]/.test(repo)\<close>\<close>

fun needsQuotes :: "string \<Rightarrow> bool" where
  "needsQuotes [] = False"
| "needsQuotes (c # cs) = (c = CHR ''.'' \<or> c = CHR ''-'' \<or> needsQuotes cs)"

definition dquote :: char where
  "dquote = CHR 0x22"

definition repoToken :: "string \<Rightarrow> string \<Rightarrow> string" where
  "repoToken org repo =
     (if needsQuotes repo
      then ''repo:'' @ [dquote] @ org @ ''/'' @ repo @ [dquote]
      else ''repo:'' @ org @ ''/'' @ repo)"

definition buildRepoFilter :: "string \<Rightarrow> string list \<Rightarrow> string" where
  "buildRepoFilter org allowedRepos =
     (if length allowedRepos = 0 then ''org:'' @ org
      else join '' '' (map (repoToken org) allowedRepos))"

section \<open>Configuration and platform\<close>

text \<open>The fields of \<open>ProjectConfig\<close> that the data-access layer reads.\<close>

record ProjectConfig =
  organization :: string
  githubToken :: "string option"
  allowedRepositories :: "string list"
  maxItemsPerPage :: nat
  enableDiscussions :: bool
  excludedUsers :: "string list option"

text \<open>
  What a response of \<open>fetch\<close> offers to the code: \<open>status\<close>, \<open>statusText\<close>, and \<open>json()\<close>,
  which is \<open>None\<close> where the body is not JSON and \<open>json()\<close> rejects.
\<close>

record response =
  status :: nat
  statusText :: string
  json :: "jsval option"

definition ok :: "response \<Rightarrow> bool" where
  "ok r = (200 \<le> status r \<and> status r \<le> 299)"

text \<open>
  The built-ins of the host that the code calls and does not define:
  \<^item> \<open>network\<close>: what the request sent after the given earlier requests is answered with (a
    rejection of \<open>fetch\<close>, or a response) and the milliseconds that takes;
  \<^item> \<open>getTime\<close>: \<open>new Date(v).getTime()\<close>, \<open>None\<close> where the date is invalid and the
    result is \<open>NaN\<close>;
  \<^item> \<open>stringify\<close>: \<open>JSON.stringify\<close>;
  \<^item> \<open>searchParams\<close>: \<open>new URLSearchParams(...)\<close> turned into a string;
  \<^item> \<open>atob\<close>: base64 decoding, which throws on other input.
\<close>

record platform =
  network :: "request list \<Rightarrow> request \<Rightarrow> (error + response) \<times> int"
  getTime :: "jsval \<Rightarrow> int option"
  stringify :: "jsval \<Rightarrow> string"
  searchParams :: "(string \<times> string) list \<Rightarrow> string"
  atob :: "string \<Rightarrow> error + string"

definition bind :: "error + 'a \<Rightarrow> ('a \<Rightarrow> error + 'b) \<Rightarrow> error + 'b" where
  "bind x f = (case x of Inl e \<Rightarrow> Inl e | Inr v \<Rightarrow> f v)"

text \<open>\<open>try { body } catch (error) { return fallback }\<close>\<close>

definition try_catch :: "(error + 'a) \<times> world \<Rightarrow> 'a \<Rightarrow> (error + 'a) \<times> world" where
  "try_catch r fallback =
     (case r of (Inl e, w) \<Rightarrow> (Inr fallback, w) | (Inr v, w) \<Rightarrow> (Inr v, w))"

section \<open>Transport\<close>

definition GITHUB_API_BASE :: string where
  "GITHUB_API_BASE = ''https://api.github.com''"

definition GITHUB_GRAPHQL_API :: string where
  "GITHUB_GRAPHQL_API = ''https://api.github.com/graphql''"

definition fetch :: "platform \<Rightarrow> request \<Rightarrow> world \<Rightarrow> (error + response) \<times> world" where
  "fetch p rq w =
     (case network p (sent w) rq of
        (r, dt) \<Rightarrow> (r, w\<lparr>now := now w + dt, sent := sent w @ [rq]\<rparr>))"

text \<open>\<open>if (config.githubToken) headers['Authorization'] = ...\<close>\<close>

definition authorization :: "ProjectConfig \<Rightarrow> (string \<times> string) list" where
  "authorization config =
     (case githubToken config of
        None \<Rightarrow> []
      | Some t \<Rightarrow> if t = [] then [] else [(''Authorization'', ''Bearer '' @ t)])"

text \<open>The request that \<open>githubFetch\<close> sends for an endpoint.\<close>

definition restRequest :: "ProjectConfig \<Rightarrow> string \<Rightarrow> request" where
  "restRequest config endpoint =
     Request ''GET'' (GITHUB_API_BASE @ endpoint)
       ([(''Accept'', ''application/vnd.github+json''),
         (''X-GitHub-Api-Version'', ''2022-11-28'')] @ authorization config)
       None"

definition githubFetch ::
  "platform \<Rightarrow> ProjectConfig \<Rightarrow> string \<Rightarrow> world \<Rightarrow> (error + jsval) \<times> world" where
  "githubFetch p config endpoint w =
     (let cacheKey = ''rest:'' @ endpoint in
      case getCached cacheKey w of
        (cached, w1) \<Rightarrow>
          if truthy cached then (Inr cached, w1)
          else
            (case fetch p (restRequest config endpoint) w1 of
               (Inl e, w2) \<Rightarrow> (Inl e, w2)
             | (Inr resp, w2) \<Rightarrow>
                 if \<not> ok resp
                 then (Inl (Error (''GitHub API request failed: '' @ statusText resp)), w2)
                 else (case json resp of
                         None \<Rightarrow> (Inl SyntaxError, w2)
                       | Some d \<Rightarrow> (Inr d, setCache cacheKey d w2))))"

text \<open>The cache key and the request of \<open>githubGraphQL\<close>; \<open>variables\<close> is \<open>undefined\<close>
  where the caller leaves it out.\<close>

definition graphqlKey :: "platform \<Rightarrow> string \<Rightarrow> jsval \<Rightarrow> string" where
  "graphqlKey p query variables =
     ''graphql:'' @ query @ '':'' @ stringify p (js_or variables (JObj []))"

definition graphqlRequest :: "platform \<Rightarrow> ProjectConfig \<Rightarrow> string \<Rightarrow> jsval \<Rightarrow> request" where
  "graphqlRequest p config query variables =
     Request ''POST'' GITHUB_GRAPHQL_API
       ([(''Accept'', ''application/vnd.github+json''),
         (''Content-Type'', ''application/json'')] @ authorization config)
       (Some (stringify p (JObj [(''query'', JStr query), (''variables'', variables)])))"

definition githubGraphQL ::
  "platform \<Rightarrow> ProjectConfig \<Rightarrow> string \<Rightarrow> jsval \<Rightarrow> world \<Rightarrow> (error + jsval) \<times> world" where
  "githubGraphQL p config query variables w =
     (let cacheKey = graphqlKey p query variables in
      case getCached cacheKey w of
        (cached, w1) \<Rightarrow>
          if truthy cached then (Inr cached, w1)
          else
            (case fetch p (graphqlRequest p config query variables) w1 of
               (Inl e, w2) \<Rightarrow> (Inl e, w2)
             | (Inr resp, w2) \<Rightarrow>
                 if \<not> ok resp
                 then (Inl (Error (''GitHub GraphQL request failed: '' @ statusText resp)), w2)
                 else (case json resp of
                         None \<Rightarrow> (Inl SyntaxError, w2)
                       | Some result \<Rightarrow>
                           (case get_prop result ''errors'' of
                              Inl e \<Rightarrow> (Inl e, w2)
                            | Inr errors \<Rightarrow>
                                if truthy errors
                                then (Inl (Error (''GraphQL errors: '' @ stringify p errors)), w2)
                                else (case get_prop result ''data'' of
                                        Inl e \<Rightarrow> (Inl e, w2)
                                      | Inr d \<Rightarrow> (Inr d, setCache cacheKey d w2))))))"

section \<open>Items\<close>

datatype item_type = Issue | Pr | Discussion

record GitHubUser =
  login :: jsval
  avatar_url :: jsval

record GitHubLabel =
  name :: jsval
  color :: jsval

text \<open>
  \<open>GitHubItem\<close>. The fields copied from a payload hold whatever the payload holds; the
  source's \<open>id\<close> is \<open>item_id\<close> here.
\<close>

record GitHubItem =
  item_id :: jsval
  number :: jsval
  title :: jsval
  state :: jsval
  created_at :: jsval
  updated_at :: jsval
  html_url :: jsval
  user :: GitHubUser
  labels :: "GitHubLabel list"
  repository :: jsval
  type :: item_type

section \<open>User exclusion\<close>

text \<open>\<open>item.user?.login?.toLowerCase()\<close>: a login that is neither a string nor absent has no
  such method.\<close>

fun username :: "jsval \<Rightarrow> error + jsval" where
  "username JUndefined = Inr JUndefined"
| "username JNull = Inr JUndefined"
| "username (JStr s) = Inr (JStr (toLowerCase s))"
| "username v = Inl TypeError"

definition keepItem :: "string list \<Rightarrow> GitHubItem \<Rightarrow> error + bool" where
  "keepItem excluded item =
     bind (username (login (user item)))
       (\<lambda>u. Inr (\<not> list_ex (\<lambda>e. JStr (toLowerCase e) = u) excluded))"

definition filterByUser :: "ProjectConfig \<Rightarrow> GitHubItem list \<Rightarrow> error + GitHubItem list" where
  "filterByUser config items =
     (case excludedUsers config of
        None \<Rightarrow> Inr items
      | Some excluded \<Rightarrow>
          if length excluded = 0 then Inr items
          else filter_throwing (keepItem excluded) items)"

section \<open>Normalizer\<close>

definition repoNameOf :: "jsval \<Rightarrow> error + jsval" where
  "repoNameOf item =
     bind (get_prop item ''repository_url'') (\<lambda>repository_url.
       if truthy repository_url
       then (case repository_url of
               JStr s \<Rightarrow> Inr (JStr (last (split (CHR ''/'') s)))
             | _ \<Rightarrow> Inl TypeError)
       else bind (get_prop item ''repository'') (\<lambda>r.
              if truthy r then get_prop r ''name'' else Inr (JStr [])))"

definition transformLabel :: "jsval \<Rightarrow> error + GitHubLabel" where
  "transformLabel l =
     (case l of
        JStr s \<Rightarrow> Inr \<lparr>name = JStr s, color = JStr ''000000''\<rparr>
      | _ \<Rightarrow> bind (get_prop l ''name'') (\<lambda>n.
             bind (get_prop l ''color'') (\<lambda>c. Inr \<lparr>name = n, color = c\<rparr>)))"

definition transformGitHubItem :: "jsval \<Rightarrow> item_type \<Rightarrow> error + GitHubItem" where
  "transformGitHubItem item ty =
     bind (repoNameOf item) (\<lambda>repoName.
     bind (get_prop item ''id'') (\<lambda>i.
     bind (get_prop item ''number'') (\<lambda>n.
     bind (get_prop item ''title'') (\<lambda>t.
     bind (get_prop item ''state'') (\<lambda>st.
     bind (get_prop item ''created_at'') (\<lambda>ca.
     bind (get_prop item ''updated_at'') (\<lambda>ua.
     bind (get_prop item ''html_url'') (\<lambda>hu.
     bind (get_prop item ''user'') (\<lambda>u.
     bind (get_prop item ''labels'') (\<lambda>ls.
     bind (as_array (js_or ls (JArr []))) (\<lambda>larr.
     bind (map_throwing transformLabel larr) (\<lambda>lbls.
       Inr \<lparr>item_id = i, number = n, title = t, state = st, created_at = ca,
            updated_at = ua, html_url = hu,
            user = \<lparr>login = js_or (opt_prop u ''login'') (JStr ''unknown''),
                    avatar_url = js_or (opt_prop u ''avatar_url'') (JStr [])\<rparr>,
            labels = lbls, repository = repoName, type = ty\<rparr>))))))))))))"

text \<open>
  The Number value of an integer, as \<open>parseInt\<close> returns it: the integer itself below
  \<open>2^53\<close>, and above that the nearest number with 53 significant bits, the one with an even
  last bit where two are equally near; \<open>Infinity\<close> where that number has more than 1024
  bits. \<open>bitlen n\<close> is the number of bits of \<open>n\<close>.
\<close>

function bitlen :: "int \<Rightarrow> nat" where
  "bitlen n = (if n \<le> 0 then 0 else Suc (bitlen (n div 2)))"
  by pat_completeness auto
termination
  by (relation "measure nat") auto

declare bitlen.simps [simp del]

definition toNumber :: "int \<Rightarrow> jsval" where
  "toNumber n =
     (let e = bitlen n - 53;
          q = n div 2 ^ e;
          r = n mod 2 ^ e;
          q' = (if 2 * r > 2 ^ e \<or> (2 * r = 2 ^ e \<and> odd q) then q + 1 else q)
      in if bitlen (q' * 2 ^ e) > 1024 then JInfinity else JNum (q' * 2 ^ e))"

text \<open>\<open>parseInt\<close> on a string of decimal digits; \<open>None\<close> is \<open>NaN\<close>.\<close>

definition parseInt :: "string \<Rightarrow> jsval option" where
  "parseInt digits =
     (if digits = [] then None
      else Some (toNumber (foldl (\<lambda>n c. 10 * n + (of_char c - 48)) (0::int) digits)))"

text \<open>\<open>parseInt(disc.id.replace(/\D/g, '')) || 0\<close>\<close>

definition discussionId :: "string \<Rightarrow> jsval" where
  "discussionId node_id =
     (case parseInt (filter is_digit node_id) of
        None \<Rightarrow> JNum 0
      | Some v \<Rightarrow> if truthy v then v else JNum 0)"

text \<open>The inline mapping of one GraphQL discussion node.\<close>

definition transformDiscussion :: "jsval \<Rightarrow> jsval \<Rightarrow> error + GitHubItem" where
  "transformDiscussion repo disc =
     bind (get_prop disc ''id'') (\<lambda>i.
     bind (case i of JStr s \<Rightarrow> Inr (discussionId s) | _ \<Rightarrow> Inl TypeError) (\<lambda>ident.
     bind (get_prop disc ''number'') (\<lambda>n.
     bind (get_prop disc ''title'') (\<lambda>t.
     bind (get_prop disc ''closed'') (\<lambda>closed.
     bind (get_prop disc ''createdAt'') (\<lambda>ca.
     bind (get_prop disc ''updatedAt'') (\<lambda>ua.
     bind (get_prop disc ''url'') (\<lambda>hu.
     bind (get_prop disc ''author'') (\<lambda>author.
     bind (get_prop disc ''labels'') (\<lambda>ls.
     bind (get_prop ls ''nodes'') (\<lambda>nodes.
     bind (as_array nodes) (\<lambda>larr.
     bind (map_throwing (\<lambda>l.
             bind (get_prop l ''name'') (\<lambda>nm.
             bind (get_prop l ''color'') (\<lambda>c. Inr \<lparr>name = nm, color = c\<rparr>))) larr) (\<lambda>lbls.
       Inr \<lparr>item_id = ident, number = n, title = t,
            state = (if truthy closed then JStr ''closed'' else JStr ''open''),
            created_at = ca, updated_at = ua, html_url = hu,
            user = \<lparr>login = js_or (opt_prop author ''login'') (JStr ''unknown''),
                    avatar_url = js_or (opt_prop author ''avatarUrl'') (JStr [])\<rparr>,
            labels = lbls, repository = repo, type = Discussion\<rparr>)))))))))))))"

section \<open>Fetchers\<close>

text \<open>
  The per-repository loop of the three item fetchers:
  \<open>for (const repo of repos) { try { all.push(...step(repo)) } catch (repoError) { log } }\<close>.
  Nothing is pushed when the step throws: the items are computed before \<open>push\<close> runs.
\<close>

fun for_each_repo ::
  "('r \<Rightarrow> world \<Rightarrow> (error + GitHubItem list) \<times> world) \<Rightarrow> 'r list \<Rightarrow> GitHubItem list \<Rightarrow> world
   \<Rightarrow> GitHubItem list \<times> world" where
  "for_each_repo step [] acc w = (acc, w)"
| "for_each_repo step (repo # repos) acc w =
     (case step repo w of
        (Inl repoError, w1) \<Rightarrow> for_each_repo step repos acc w1
      | (Inr items, w1) \<Rightarrow> for_each_repo step repos (acc @ items) w1)"

definition listParams :: "platform \<Rightarrow> string \<Rightarrow> string" where
  "listParams p st =
     (let stateParam = (if st = ''all'' then ''all'' else st)
      in searchParams p [(''state'', stateParam), (''per_page'', ''100''),
                         (''sort'', ''updated''), (''direction'', ''desc'')])"

definition queryParams :: "platform \<Rightarrow> ProjectConfig \<Rightarrow> string \<Rightarrow> string" where
  "queryParams p config query =
     searchParams p [(''q'', query), (''per_page'', toString (maxItemsPerPage config)),
                     (''sort'', ''updated''), (''order'', ''desc'')]"

text \<open>The body of the \<open>try\<close> inside the loop of \<open>fetchIssues\<close>.\<close>

definition fetchIssues_repo ::
  "platform \<Rightarrow> ProjectConfig \<Rightarrow> string \<Rightarrow> string \<Rightarrow> string \<Rightarrow> world
   \<Rightarrow> (error + GitHubItem list) \<times> world" where
  "fetchIssues_repo p config org st repo w =
     (case githubFetch p config
             (''/repos/'' @ org @ ''/'' @ repo @ ''/issues?'' @ listParams p st) w of
        (Inl e, w1) \<Rightarrow> (Inl e, w1)
      | (Inr issues, w1) \<Rightarrow>
          (bind (as_array issues) (\<lambda>arr.
           bind (filter_throwing
                   (\<lambda>issue. bind (get_prop issue ''pull_request'') (\<lambda>pr. Inr (\<not> truthy pr)))
                   arr) (\<lambda>actualIssues.
           map_throwing
             (\<lambda>item. bind (transformGitHubItem item Issue)
                        (\<lambda>it. Inr (it\<lparr>repository := JStr repo\<rparr>)))
             actualIssues)), w1))"

text \<open>What the \<open>try\<close> of \<open>fetchIssues\<close> encloses.\<close>

definition fetchIssues_body ::
  "platform \<Rightarrow> ProjectConfig \<Rightarrow> string \<Rightarrow> string \<Rightarrow> string list \<Rightarrow> world
   \<Rightarrow> (error + GitHubItem list) \<times> world" where
  "fetchIssues_body p config org st allowedRepos w =
     (if length allowedRepos > 0
      then (case for_each_repo (fetchIssues_repo p config org st) allowedRepos [] w of
              (allIssues, w1) \<Rightarrow> (filterByUser config allIssues, w1))
      else
        (let repoFilter = buildRepoFilter org allowedRepos;
             stateQuery = (if st = ''all'' then [] else ''is:'' @ st);
             query = trim (repoFilter @ '' is:issue '' @ stateQuery)
         in case githubFetch p config (''/search/issues?'' @ queryParams p config query) w of
              (Inl e, w1) \<Rightarrow> (Inl e, w1)
            | (Inr result, w1) \<Rightarrow>
                (if \<not> truthy (opt_prop result ''items'') then Inr []
                 else bind (as_array (opt_prop result ''items'')) (\<lambda>arr.
                      bind (map_throwing (\<lambda>item. transformGitHubItem item Issue) arr)
                        (filterByUser config)), w1)))"

definition fetchIssues ::
  "platform \<Rightarrow> ProjectConfig \<Rightarrow> string \<Rightarrow> string \<Rightarrow> string list \<Rightarrow> world
   \<Rightarrow> (error + GitHubItem list) \<times> world" where
  "fetchIssues p config org st allowedRepos w =
     try_catch (fetchIssues_body p config org st allowedRepos w) []"

definition fetchPullRequests_repo ::
  "platform \<Rightarrow> ProjectConfig \<Rightarrow> string \<Rightarrow> string \<Rightarrow> string \<Rightarrow> world
   \<Rightarrow> (error + GitHubItem list) \<times> world" where
  "fetchPullRequests_repo p config org st repo w =
     (case githubFetch p config
             (''/repos/'' @ org @ ''/'' @ repo @ ''/pulls?'' @ listParams p st) w of
        (Inl e, w1) \<Rightarrow> (Inl e, w1)
      | (Inr prs, w1) \<Rightarrow>
          (bind (as_array prs) (\<lambda>arr.
           map_throwing
             (\<lambda>item. bind (transformGitHubItem item Pr)
                        (\<lambda>it. Inr (it\<lparr>repository := JStr repo\<rparr>)))
             arr), w1))"

definition fetchPullRequests_body ::
  "platform \<Rightarrow> ProjectConfig \<Rightarrow> string \<Rightarrow> string \<Rightarrow> string list \<Rightarrow> world
   \<Rightarrow> (error + GitHubItem list) \<times> world" where
  "fetchPullRequests_body p config org st allowedRepos w =
     (if length allowedRepos > 0
      then (case for_each_repo (fetchPullRequests_repo p config org st) allowedRepos [] w of
              (allPRs, w1) \<Rightarrow> (filterByUser config allPRs, w1))
      else
        (let repoFilter = buildRepoFilter org allowedRepos;
             stateQuery = (if st = ''all'' then [] else ''is:'' @ st);
             query = trim (repoFilter @ '' is:pr '' @ stateQuery)
         in case githubFetch p config (''/search/issues?'' @ queryParams p config query) w of
              (Inl e, w1) \<Rightarrow> (Inl e, w1)
            | (Inr result, w1) \<Rightarrow>
                (if \<not> truthy (opt_prop result ''items'') then Inr []
                 else bind (as_array (opt_prop result ''items'')) (\<lambda>arr.
                      bind (map_throwing (\<lambda>item. transformGitHubItem item Pr) arr)
                        (filterByUser config)), w1)))"

definition fetchPullRequests ::
  "platform \<Rightarrow> ProjectConfig \<Rightarrow> string \<Rightarrow> string \<Rightarrow> string list \<Rightarrow> world
   \<Rightarrow> (error + GitHubItem list) \<times> world" where
  "fetchPullRequests p config org st allowedRepos w =
     try_catch (fetchPullRequests_body p config org st allowedRepos w) []"

definition getOrgRepositories_body ::
  "platform \<Rightarrow> ProjectConfig \<Rightarrow> string \<Rightarrow> world \<Rightarrow> (error + jsval list) \<times> world" where
  "getOrgRepositories_body p config org w =
     (let params = searchParams p [(''q'', ''org:'' @ org), (''per_page'', ''100''),
                                   (''sort'', ''updated''), (''order'', ''desc'')]
      in case githubFetch p config (''/search/repositories?'' @ params) w of
           (Inl e, w1) \<Rightarrow> (Inl e, w1)
         | (Inr result, w1) \<Rightarrow>
             (if \<not> truthy (opt_prop result ''items'') then Inr []
              else bind (as_array (opt_prop result ''items'')) (\<lambda>arr.
                   bind (map_throwing (\<lambda>repo. get_prop repo ''name'') arr) (\<lambda>names.
                     let allRepos = filter truthy names
                     in if length (allowedRepositories config) > 0
                        then Inr (filter (\<lambda>repo. repo \<in> set (map JStr (allowedRepositories config)))
                                    allRepos)
                        else Inr allRepos)), w1))"

definition getOrgRepositories ::
  "platform \<Rightarrow> ProjectConfig \<Rightarrow> string \<Rightarrow> world \<Rightarrow> (error + jsval list) \<times> world" where
  "getOrgRepositories p config org w = try_catch (getOrgRepositories_body p config org w) []"

text \<open>The GraphQL document of \<open>fetchDiscussions\<close>, line by line.\<close>

definition discussionsQuery :: string where
  "discussionsQuery = concat (map (\<lambda>l. l @ [CHR 0x0A])
     [[],
      ''          query($owner: String!, $repo: String!) {'',
      ''            repository(owner: $owner, name: $repo) {'',
      ''              discussions(first: 20, orderBy: {field: UPDATED_AT, direction: DESC}) {'',
      ''                nodes {'',
      ''                  id'',
      ''                  number'',
      ''                  title'',
      ''                  url'',
      ''                  createdAt'',
      ''                  updatedAt'',
      ''                  author {'',
      ''                    login'',
      ''                    avatarUrl'',
      ''                  }'',
      ''                  labels(first: 10) {'',
      ''                    nodes {'',
      ''                      name'',
      ''                      color'',
      ''                    }'',
      ''                  }'',
      ''                  closed'',
      ''                  closedAt'',
      ''                }'',
      ''              }'',
      ''            }'',
      ''          }'']) @ ''        ''"

text \<open>The body of the \<open>try\<close> inside the loop of \<open>fetchDiscussions\<close>.\<close>

definition fetchDiscussions_repo ::
  "platform \<Rightarrow> ProjectConfig \<Rightarrow> string \<Rightarrow> jsval \<Rightarrow> world \<Rightarrow> (error + GitHubItem list) \<times> world" where
  "fetchDiscussions_repo p config org repo w =
     (case githubGraphQL p config discussionsQuery
             (JObj [(''owner'', JStr org), (''repo'', repo)]) w of
        (Inl e, w1) \<Rightarrow> (Inl e, w1)
      | (Inr result, w1) \<Rightarrow>
          (let nodes = opt_prop (opt_prop (opt_prop result ''repository'') ''discussions'') ''nodes''
           in if truthy nodes
              then (bind (as_array nodes) (map_throwing (transformDiscussion repo)), w1)
              else (Inr [], w1)))"

definition fetchDiscussions_body ::
  "platform \<Rightarrow> ProjectConfig \<Rightarrow> string \<Rightarrow> string list \<Rightarrow> world
   \<Rightarrow> (error + GitHubItem list) \<times> world" where
  "fetchDiscussions_body p config org allowedRepos w =
     (case (if length allowedRepos > 0 then (Inr (map JStr allowedRepos), w)
            else getOrgRepositories p config org w) of
        (Inl e, w1) \<Rightarrow> (Inl e, w1)
      | (Inr reposToFetch, w1) \<Rightarrow>
          if length reposToFetch = 0 then (Inr [], w1)
          else (case for_each_repo (fetchDiscussions_repo p config org) reposToFetch [] w1 of
                  (allDiscussions, w2) \<Rightarrow> (filterByUser config allDiscussions, w2)))"

definition fetchDiscussions ::
  "platform \<Rightarrow> ProjectConfig \<Rightarrow> string \<Rightarrow> string list \<Rightarrow> world
   \<Rightarrow> (error + GitHubItem list) \<times> world" where
  "fetchDiscussions p config org allowedRepos w =
     try_catch (fetchDiscussions_body p config org allowedRepos w) []"

definition fetchOrganization ::
  "platform \<Rightarrow> ProjectConfig \<Rightarrow> string \<Rightarrow> world \<Rightarrow> (error + jsval) \<times> world" where
  "fetchOrganization p config org w = try_catch (githubFetch p config (''/orgs/'' @ org) w) JNull"

definition fetchReadme_body ::
  "platform \<Rightarrow> ProjectConfig \<Rightarrow> string \<Rightarrow> string \<Rightarrow> world \<Rightarrow> (error + jsval) \<times> world" where
  "fetchReadme_body p config org repo w =
     (case githubFetch p config (''/repos/'' @ org @ ''/'' @ repo @ ''/readme'') w of
        (Inl e, w1) \<Rightarrow> (Inl e, w1)
      | (Inr resp, w1) \<Rightarrow>
          (bind (get_prop resp ''encoding'') (\<lambda>encoding.
             if encoding = JStr ''base64''
             then bind (get_prop resp ''content'') (\<lambda>content.
                    case content of
                      JStr s \<Rightarrow> bind (atob p (filter (\<lambda>c. c \<noteq> CHR 0x0A) s)) (\<lambda>t. Inr (JStr t))
                    | _ \<Rightarrow> Inl TypeError)
             else get_prop resp ''content''), w1))"

definition fetchReadme ::
  "platform \<Rightarrow> ProjectConfig \<Rightarrow> string \<Rightarrow> string \<Rightarrow> world \<Rightarrow> (error + jsval) \<times> world" where
  "fetchReadme p config org repo w = try_catch (fetchReadme_body p config org repo w) JNull"

section \<open>Aggregator\<close>

datatype type_filter = TypeIssue | TypePr | TypeDiscussion | TypeAll

text \<open>\<open>FilterOptions\<close>: \<open>None\<close> is a property left out of the options object.\<close>

record FilterOptions =
  filter_state :: "string option"
  filter_type :: "type_filter option"
  filter_repository :: "string option"

text \<open>
  \<open>Array.prototype.sort(comparefn)\<close>: a stable sort, here by insertion, that reads a
  \<open>NaN\<close> of the comparator as \<open>+0\<close>. For a comparator that is a consistent order every
  stable sort returns this list; for another one the language leaves the order to the engine.
\<close>

definition sortCompare :: "('a \<Rightarrow> 'a \<Rightarrow> int option) \<Rightarrow> 'a \<Rightarrow> 'a \<Rightarrow> int" where
  "sortCompare comparefn x y = (case comparefn x y of None \<Rightarrow> 0 | Some v \<Rightarrow> v)"

fun insert_sorted :: "('a \<Rightarrow> 'a \<Rightarrow> int option) \<Rightarrow> 'a \<Rightarrow> 'a list \<Rightarrow> 'a list" where
  "insert_sorted comparefn x [] = [x]"
| "insert_sorted comparefn x (y # ys) =
     (if sortCompare comparefn x y \<le> 0 then x # y # ys
      else y # insert_sorted comparefn x ys)"

definition array_sort :: "('a \<Rightarrow> 'a \<Rightarrow> int option) \<Rightarrow> 'a list \<Rightarrow> 'a list" where
  "array_sort comparefn xs = foldr (insert_sorted comparefn) xs []"

text \<open>\<open>(a, b) => new Date(b.updated_at).getTime() - new Date(a.updated_at).getTime()\<close>\<close>

definition compareUpdated :: "platform \<Rightarrow> GitHubItem \<Rightarrow> GitHubItem \<Rightarrow> int option" where
  "compareUpdated p a b =
     (case getTime p (updated_at b) of
        None \<Rightarrow> None
      | Some tb \<Rightarrow> (case getTime p (updated_at a) of None \<Rightarrow> None | Some ta \<Rightarrow> Some (tb - ta)))"

text \<open>\<open>fetchAllItems\<close> up to the sort: the fetches, the concatenation, the repository filter.\<close>

definition collectItems ::
  "platform \<Rightarrow> ProjectConfig \<Rightarrow> string \<Rightarrow> FilterOptions \<Rightarrow> world
   \<Rightarrow> (error + GitHubItem list) \<times> world" where
  "collectItems p config org options w =
     (let st = (case filter_state options of None \<Rightarrow> ''open'' | Some s \<Rightarrow> s);
          ty = (case filter_type options of None \<Rightarrow> TypeAll | Some t \<Rightarrow> t);
          allowedRepos = allowedRepositories config
      in case (if ty = TypeAll \<or> ty = TypeIssue
               then (case fetchIssues p config org st allowedRepos w of
                       (r, w1) \<Rightarrow> (bind r (\<lambda>issues. Inr ([] @ issues)), w1))
               else (Inr [], w)) of
           (Inl e, w1) \<Rightarrow> (Inl e, w1)
         | (Inr items1, w1) \<Rightarrow>
       (case (if ty = TypeAll \<or> ty = TypePr
              then (case fetchPullRequests p config org st allowedRepos w1 of
                      (r, w2) \<Rightarrow> (bind r (\<lambda>prs. Inr (items1 @ prs)), w2))
              else (Inr items1, w1)) of
           (Inl e, w2) \<Rightarrow> (Inl e, w2)
         | (Inr items2, w2) \<Rightarrow>
       (case (if (ty = TypeAll \<or> ty = TypeDiscussion) \<and> enableDiscussions config
              then (case fetchDiscussions p config org allowedRepos w2 of
                      (r, w3) \<Rightarrow> (bind r (\<lambda>discussions. Inr (items2 @ discussions)), w3))
              else (Inr items2, w2)) of
           (Inl e, w3) \<Rightarrow> (Inl e, w3)
         | (Inr items, w3) \<Rightarrow>
             (case filter_repository options of
                None \<Rightarrow> (Inr items, w3)
              | Some repo \<Rightarrow>
                  if repo \<noteq> [] \<and> repo \<noteq> ''all''
                  then (Inr (filter (\<lambda>item. repository item = JStr repo) items), w3)
                  else (Inr items, w3)))))"

definition fetchAllItems ::
  "platform \<Rightarrow> ProjectConfig \<Rightarrow> string \<Rightarrow> FilterOptions \<Rightarrow> world
   \<Rightarrow> (error + GitHubItem list) \<times> world" where
  "fetchAllItems p config org options w =
     (case collectItems p config org options w of
        (Inl e, w1) \<Rightarrow> (Inl e, w1)
      | (Inr filteredItems, w1) \<Rightarrow> (Inr (array_sort (compareUpdated p) filteredItems), w1))"

section \<open>Notions used in the properties\<close>

text \<open>The configured excluded usernames; none where the option is left out.\<close>

definition excludedList :: "ProjectConfig \<Rightarrow> string list" where
  "excludedList config = (case excludedUsers config of None \<Rightarrow> [] | Some excluded \<Rightarrow> excluded)"

text \<open>The login of the item is a string that equals an excluded username up to letter case.\<close>

definition matchesExcluded :: "ProjectConfig \<Rightarrow> GitHubItem \<Rightarrow> bool" where
  "matchesExcluded config item =
     (case login (user item) of
        JStr s \<Rightarrow> list_ex (\<lambda>e. toLowerCase e = toLowerCase s) (excludedList config)
      | _ \<Rightarrow> False)"

text \<open>The login is what \<open>GitHubItem\<close> declares, a string, or is absent.\<close>

definition loginIsString :: "GitHubItem \<Rightarrow> bool" where
  "loginIsString item =
     (case login (user item) of
        JStr s \<Rightarrow> True | JUndefined \<Rightarrow> True | JNull \<Rightarrow> True | _ \<Rightarrow> False)"




text \<open>The parsed \<open>updated_at\<close> of an item, and "\<open>a\<close> is updated no earlier than \<open>b\<close>".\<close>

definition updatedTime :: "platform \<Rightarrow> GitHubItem \<Rightarrow> int option" where
  "updatedTime p item = getTime p (updated_at item)"

definition notEarlier :: "platform \<Rightarrow> GitHubItem \<Rightarrow> GitHubItem \<Rightarrow> bool" where
  "notEarlier p a b =
     (case updatedTime p a of
        None \<Rightarrow> False
      | Some ta \<Rightarrow> (case updatedTime p b of None \<Rightarrow> False | Some tb \<Rightarrow> tb \<le> ta))"

section \<open>Sample inputs\<close>

definition sample_world :: world where
  "sample_world = \<lparr>cache = Map.empty, now = 1000, sent = []\<rparr>"

text \<open>
  An organization \<open>o\<close> with the repositories \<open>a\<close> and \<open>b\<close>; every other request, those
  for the repository \<open>down\<close> among them, is answered with status 500 and a body that is
  not JSON.
\<close>

definition sample_issue :: "int \<Rightarrow> string \<Rightarrow> string \<Rightarrow> jsval" where
  "sample_issue i l u =
     JObj [(''id'', JNum i), (''number'', JNum i), (''updated_at'', JStr u),
           (''user'', JObj [(''login'', JStr l)])]"

definition sample_discussion :: "string \<Rightarrow> string \<Rightarrow> jsval" where
  "sample_discussion i u =
     JObj [(''id'', JStr i), (''updatedAt'', JStr u), (''closed'', JBool False),
           (''author'', JNull), (''labels'', JObj [(''nodes'', JArr [])])]"

definition sample_nodes :: "jsval list \<Rightarrow> jsval" where
  "sample_nodes ns =
     JObj [(''data'',
            JObj [(''repository'', JObj [(''discussions'', JObj [(''nodes'', JArr ns)])])])]"

definition sample_answer :: "request \<Rightarrow> response" where
  "sample_answer rq =
     (if url rq = ''https://api.github.com/repos/o/a/issues?state=open''
      then \<lparr>status = 200, statusText = ''OK'',
            json = Some (JArr [sample_issue 1 ''Bot'' ''2024-01-01'',
                               sample_issue 2 ''alice'' ''2024-01-01'',
                               sample_issue 3 ''bob'' ''2024-02-01'',
                               JObj [(''id'', JNum 4), (''pull_request'', JObj [])]])\<rparr>
      else if url rq = ''https://api.github.com/repos/o/b/issues?state=open''
      then \<lparr>status = 200, statusText = ''OK'',
            json = Some (JArr [sample_issue 6 ''dave'' ''2024-01-01''])\<rparr>
      else if url rq = ''https://api.github.com/repos/o/a/pulls?state=open''
      then \<lparr>status = 200, statusText = ''OK'',
            json = Some (JArr [sample_issue 5 ''carol'' ''2024-02-01''])\<rparr>
      else if url rq = ''https://api.github.com/repos/o/b/pulls?state=open''
      then \<lparr>status = 200, statusText = ''OK'', json = Some (JArr [])\<rparr>
      else if url rq = ''https://api.github.com/graphql'' \<and> payload rq = Some ''a''
      then \<lparr>status = 200, statusText = ''OK'',
            json = Some (sample_nodes [sample_discussion ''D_kwA1'' ''2024-01-01'',
                                       sample_discussion ''D_kwB1'' ''2024-02-01''])\<rparr>
      else if url rq = ''https://api.github.com/graphql'' \<and> payload rq = Some ''b''
      then \<lparr>status = 200, statusText = ''OK'', json = Some (sample_nodes [])\<rparr>
      else \<lparr>status = 500, statusText = ''Internal Server Error'', json = None\<rparr>)"

definition sample_repo :: "jsval \<Rightarrow> string" where
  "sample_repo v = (case opt_prop v ''repo'' of JStr r \<Rightarrow> r | _ \<Rightarrow> [])"

definition sample_platform :: platform where
  "sample_platform =
     \<lparr>network = (\<lambda>earlier rq. (Inr (sample_answer rq), 40)),
      getTime = (\<lambda>v. if v = JStr ''2024-01-01'' then Some 1704067200000
                      else if v = JStr ''2024-02-01'' then Some 1706745600000
                      else None),
      stringify = (\<lambda>v. case opt_prop v ''variables'' of
                          JUndefined \<Rightarrow> sample_repo v
                        | vars \<Rightarrow> sample_repo vars),
      searchParams = (\<lambda>kv. case kv of [] \<Rightarrow> [] | (k, v) # rest \<Rightarrow> k @ ''='' @ v),
      atob = (\<lambda>s. Inr s)\<rparr>"

text \<open>The same platform with a network that rejects every request.\<close>

definition offline_platform :: platform where
  "offline_platform = sample_platform\<lparr>network := (\<lambda>earlier rq. (Inl TypeError, 0))\<rparr>"

text \<open>The same platform with a network that answers every request with the given status.\<close>

definition failing_platform :: "nat \<Rightarrow> platform" where
  "failing_platform code =
     sample_platform\<lparr>network :=
       (\<lambda>earlier rq. (Inr \<lparr>status = code, statusText = [], json = None\<rparr>, 40))\<rparr>"

definition sample_config :: ProjectConfig where
  "sample_config =
     \<lparr>organization = ''o'', githubToken = None, allowedRepositories = [''a'', ''down'', ''b''],
      maxItemsPerPage = 100, enableDiscussions = True, excludedUsers = Some [''bot'']\<rparr>"

definition sample_options :: "type_filter \<Rightarrow> FilterOptions" where
  "sample_options t = \<lparr>filter_state = None, filter_type = Some t, filter_repository = None\<rparr>"

text \<open>What the discussion \<open>sample_discussion i u\<close> of repository \<open>a\<close> becomes, with id \<open>n\<close>.\<close>

definition sample_discussion_item :: "int \<Rightarrow> string \<Rightarrow> GitHubItem" where
  "sample_discussion_item n u =
     \<lparr>item_id = JNum n, number = JUndefined, title = JUndefined, state = JStr ''open'',
      created_at = JUndefined, updated_at = JStr u, html_url = JUndefined,
      user = \<lparr>login = JStr ''unknown'', avatar_url = JStr []\<rparr>,
      labels = [], repository = JStr ''a'', type = Discussion\<rparr>"

text \<open>What the issue or pull request \<open>sample_issue i l u\<close> of a repository becomes.\<close>

definition sample_item :: "int \<Rightarrow> string \<Rightarrow> string \<Rightarrow> string \<Rightarrow> item_type \<Rightarrow> GitHubItem" where
  "sample_item i l u repo ty =
     \<lparr>item_id = JNum i, number = JNum i, title = JUndefined, state = JUndefined,
      created_at = JUndefined, updated_at = JStr u, html_url = JUndefined,
      user = \<lparr>login = JStr l, avatar_url = JStr []\<rparr>,
      labels = [], repository = JStr repo, type = ty\<rparr>"

text \<open>
  Two worlds at time 1000 whose cache holds, since time 900, an entry for a REST endpoint
  and one for a GraphQL query: falsy data in the first world, truthy data in the second.
\<close>

definition sample_variables :: jsval where
  "sample_variables = JObj [(''owner'', JStr ''o''), (''repo'', JStr ''b'')]"

definition falsy_world :: world where
  "falsy_world =
     sample_world\<lparr>cache :=
       [''rest:/repos/o/b/pulls?state=open'' \<mapsto> \<lparr>data = JNull, timestamp = 900\<rparr>,
        graphqlKey sample_platform discussionsQuery sample_variables
          \<mapsto> \<lparr>data = JNum 0, timestamp = 900\<rparr>]\<rparr>"

definition truthy_world :: world where
  "truthy_world =
     sample_world\<lparr>cache :=
       [''rest:/repos/o/b/pulls?state=open'' \<mapsto> \<lparr>data = JStr ''cached'', timestamp = 900\<rparr>,
        graphqlKey sample_platform discussionsQuery sample_variables
          \<mapsto> \<lparr>data = JStr ''cached'', timestamp = 900\<rparr>]\<rparr>"

text \<open>
  A platform whose every answer is a GraphQL answer with one discussion whose author has a
  number as login.
\<close>

definition odd_platform :: platform where
  "odd_platform =
     sample_platform\<lparr>network :=
       (\<lambda>earlier rq.
          (Inr \<lparr>status = 200, statusText = ''OK'',
                json = Some (sample_nodes
                  [JObj [(''id'', JStr ''D_1''), (''author'', JObj [(''login'', JNum 5)]),
                         (''labels'', JObj [(''nodes'', JArr [])])]])\<rparr>, 40))\<rparr>"


section \<open>Properties of the cache\<close>

lemma getCached_fresh:
  "cache w k = Some e \<Longrightarrow> now w - timestamp e \<le> CACHE_TTL \<Longrightarrow> getCached k w = (data e, w)"
  by (simp add: getCached_def)

lemma getCached_stale:
  "cache w k = Some e \<Longrightarrow> now w - timestamp e > CACHE_TTL \<Longrightarrow>
   getCached k w = (JNull, w\<lparr>cache := (cache w)(k := None)\<rparr>)"
  by (simp add: getCached_def)

lemma cache_setCache: "cache (setCache k v w) k = Some \<lparr>data = v, timestamp = now w\<rparr>"
  by (simp add: setCache_def)

text \<open>
  C5. An entry put for key \<open>k\<close> with value \<open>v\<close> at the time of the world \<open>w0\<close>, and still the
  entry of \<open>k\<close> in a later world \<open>w\<close>: a get at a time \<open>now w\<close> with
  \<open>now w - now w0 \<le> 300000\<close> returns exactly \<open>v\<close> and leaves the world as it is; a get with
  \<open>now w - now w0 > 300000\<close> returns \<open>null\<close> (absent) and removes the entry of \<open>k\<close>, and of
  no other key.
\<close>

theorem cache_get_within_ttl_else_evict:
  assumes "cache w k = cache (setCache k v w0) k"
  shows "(now w - now w0 \<le> 300000 \<longrightarrow> getCached k w = (v, w))
       \<and> (now w - now w0 > 300000 \<longrightarrow>
            fst (getCached k w) = JNull
          \<and> cache (snd (getCached k w)) k = None
          \<and> (\<forall>k'. k' \<noteq> k \<longrightarrow> cache (snd (getCached k w)) k' = cache w k')
          \<and> now (snd (getCached k w)) = now w)"
proof -
  from assms have e: "cache w k = Some \<lparr>data = v, timestamp = now w0\<rparr>"
    by (simp add: cache_setCache)
  show ?thesis
  proof (intro conjI impI)
    assume "now w - now w0 \<le> 300000"
    with e show "getCached k w = (v, w)"
      using getCached_fresh [of w k "\<lparr>data = v, timestamp = now w0\<rparr>"]
      by (simp add: CACHE_TTL_def)
  next
    assume late: "now w - now w0 > 300000"
    with e have g: "getCached k w = (JNull, w\<lparr>cache := (cache w)(k := None)\<rparr>)"
      using getCached_stale [of w k "\<lparr>data = v, timestamp = now w0\<rparr>"]
      by (simp add: CACHE_TTL_def)
    show "fst (getCached k w) = JNull" by (simp add: g)
    show "cache (snd (getCached k w)) k = None" by (simp add: g)
    show "\<forall>k'. k' \<noteq> k \<longrightarrow> cache (snd (getCached k w)) k' = cache w k'" by (simp add: g)
    show "now (snd (getCached k w)) = now w" by (simp add: g)
  qed
qed

theorem cache_get_within_ttl_else_evict_witness:
  "getCached ''rest:/orgs/o'' ((setCache ''rest:/orgs/o'' (JStr ''x'') sample_world)\<lparr>now := 301000\<rparr>)
     = (JStr ''x'', (setCache ''rest:/orgs/o'' (JStr ''x'') sample_world)\<lparr>now := 301000\<rparr>)
   \<and> fst (getCached ''rest:/orgs/o''
             ((setCache ''rest:/orgs/o'' (JStr ''x'') sample_world)\<lparr>now := 301001\<rparr>)) = JNull
   \<and> cache (snd (getCached ''rest:/orgs/o''
             ((setCache ''rest:/orgs/o'' (JStr ''x'') sample_world)\<lparr>now := 301001\<rparr>)))
        ''rest:/orgs/o'' = None"
  using cache_get_within_ttl_else_evict
          [of "(setCache ''rest:/orgs/o'' (JStr ''x'') sample_world)\<lparr>now := 301000\<rparr>"
              "''rest:/orgs/o''" "JStr ''x''" sample_world]
        cache_get_within_ttl_else_evict
          [of "(setCache ''rest:/orgs/o'' (JStr ''x'') sample_world)\<lparr>now := 301001\<rparr>"
              "''rest:/orgs/o''" "JStr ''x''" sample_world]
  by (simp add: setCache_def sample_world_def)

section \<open>Properties of the query builder\<close>

lemma needsQuotes_iff: "needsQuotes s \<longleftrightarrow> CHR ''.'' \<in> set s \<or> CHR ''-'' \<in> set s"
  by (induction s) auto

lemma join_Cons: "join sep (x # xs) = x @ concat (map (\<lambda>y. sep @ y) xs)"
  by (induction xs arbitrary: x) auto

lemma repoToken_eq:
  "repoToken org repo =
     (if CHR ''.'' \<in> set repo \<or> CHR ''-'' \<in> set repo
      then ''repo:'' @ [CHR 0x22] @ org @ ''/'' @ repo @ [CHR 0x22]
      else ''repo:'' @ org @ ''/'' @ repo)"
  by (simp add: repoToken_def needsQuotes_iff dquote_def)

text \<open>
  C6. \<open>buildRepoFilter org []\<close> is \<open>org:\<close> followed by \<open>org\<close>. For a non-empty list the
  result is the first repository's token followed, for each further repository in input
  order (duplicates included), by a space and its token; the token of a name that contains
  a dot or a hyphen is \<open>repo:"org/name"\<close>, with the pair in double quotes (character
  \<open>0x22\<close>), and the token of any other name is \<open>repo:org/name\<close>.
\<close>

theorem buildRepoFilter_tokens:
  "buildRepoFilter org [] = ''org:'' @ org
   \<and> buildRepoFilter org (r # rs) =
       (let token = (\<lambda>repo. if CHR ''.'' \<in> set repo \<or> CHR ''-'' \<in> set repo
                            then ''repo:'' @ [CHR 0x22] @ org @ ''/'' @ repo @ [CHR 0x22]
                            else ''repo:'' @ org @ ''/'' @ repo)
        in token r @ concat (map (\<lambda>repo. '' '' @ token repo) rs))"
proof -
  have "buildRepoFilter org (r # rs) = join '' '' (repoToken org r # map (repoToken org) rs)"
    by (simp add: buildRepoFilter_def)
  also have "\<dots> = repoToken org r @ concat (map (\<lambda>repo. '' '' @ repoToken org repo) rs)"
    by (simp only: join_Cons map_map o_def)
  finally show ?thesis
    by (simp only: Let_def repoToken_eq) (simp add: buildRepoFilter_def)
qed

theorem buildRepoFilter_tokens_witness:
  "buildRepoFilter ''o'' [] = ''org:o''
   \<and> buildRepoFilter ''o'' [''a.b'', ''ab'', ''c-d'', ''ab'']
       = ''repo:'' @ [CHR 0x22] @ ''o/a.b'' @ [CHR 0x22] @ '' repo:o/ab repo:''
         @ [CHR 0x22] @ ''o/c-d'' @ [CHR 0x22] @ '' repo:o/ab''"
  using buildRepoFilter_tokens [of "''o''" "''a.b''" "[''ab'', ''c-d'', ''ab'']"]
  by (simp add: Let_def)

section \<open>Control flow, loops and filters\<close>

lemma bind_Inr: "bind x f = Inr y \<longleftrightarrow> (\<exists>v. x = Inr v \<and> f v = Inr y)"
  by (cases x) (simp_all add: bind_def)

lemma try_catch_Inr: "\<exists>v. fst (try_catch r d) = Inr v"
  by (cases r; cases "fst r") (auto simp: try_catch_def)

lemma try_catch_cases:
  "try_catch r d = (Inr v, w') \<longleftrightarrow> (snd r = w' \<and> ((\<exists>e. fst r = Inl e \<and> v = d) \<or> fst r = Inr v))"
  by (cases r; cases "fst r") (auto simp: try_catch_def)


lemma try_catch_pass: "fst r = Inr v \<Longrightarrow> fst (try_catch r d) = Inr v"
  by (cases r) (auto simp: try_catch_def)

lemma map_throwing_Inr:
  "map_throwing f xs = Inr ys \<Longrightarrow> list_all2 (\<lambda>x y. f x = Inr y) xs ys"
  by (induction xs arbitrary: ys) (auto split: sum.splits)

lemma map_throwing_all:
  "map_throwing f xs = Inr ys \<Longrightarrow> (\<And>x y. f x = Inr y \<Longrightarrow> P y) \<Longrightarrow> \<forall>y\<in>set ys. P y"
  by (induction xs arbitrary: ys) (auto split: sum.splits)

lemma filter_throwing_Inr:
  "filter_throwing f xs = Inr ys \<Longrightarrow> ys = filter (\<lambda>x. f x = Inr True) xs"
  by (induction xs arbitrary: ys) (auto split: sum.splits)

lemma filter_throwing_total:
  "\<forall>x\<in>set xs. \<exists>b. f x = Inr b \<Longrightarrow> \<exists>ys. filter_throwing f xs = Inr ys"
  by (induction xs) (auto split: sum.splits)

lemma for_each_repo_all:
  assumes "\<And>repo w items w'. step repo w = (Inr items, w') \<Longrightarrow> \<forall>x\<in>set items. P x"
    and "\<forall>x\<in>set acc. P x"
  shows "\<forall>x\<in>set (fst (for_each_repo step repos acc w)). P x"
  using assms(2)
proof (induction repos arbitrary: acc w)
  case Nil
  then show ?case by simp
next
  case (Cons repo repos)
  obtain r w1 where s: "step repo w = (r, w1)" by (cases "step repo w")
  show ?case
  proof (cases r)
    case (Inl e)
    with s Cons show ?thesis by simp
  next
    case (Inr items)
    with s assms(1) have "\<forall>x\<in>set items. P x" by blast
    with Cons.prems have "\<forall>x\<in>set (acc @ items). P x" by auto
    from Cons.IH [OF this] s Inr show ?thesis by simp
  qed
qed

lemma for_each_repo_acc:
  "for_each_repo step repos acc w =
     (acc @ fst (for_each_repo step repos [] w), snd (for_each_repo step repos [] w))"
proof (induction repos arbitrary: acc w)
  case Nil
  then show ?case by simp
next
  case (Cons repo repos)
  obtain r w1 where s: "step repo w = (r, w1)" by (cases "step repo w")
  show ?case
  proof (cases r)
    case (Inl e)
    with s Cons [of acc w1] show ?thesis by simp
  next
    case (Inr items)
    with s Cons [of "acc @ items" w1] Cons [of items w1] show ?thesis by simp
  qed
qed

lemma for_each_repo_append:
  "for_each_repo step (xs @ ys) acc w =
     (case for_each_repo step xs acc w of (a, w1) \<Rightarrow> for_each_repo step ys a w1)"
proof (induction xs arbitrary: acc w)
  case Nil
  then show ?case by simp
next
  case (Cons repo repos)
  obtain r w1 where s: "step repo w = (r, w1)" by (cases "step repo w")
  show ?case by (cases r) (simp_all add: s Cons)
qed

lemma transformGitHubItem_type: "transformGitHubItem item ty = Inr x \<Longrightarrow> type x = ty"
  by (auto simp: transformGitHubItem_def bind_Inr)

lemma transformDiscussion_type: "transformDiscussion repo disc = Inr x \<Longrightarrow> type x = Discussion"
  by (auto simp: transformDiscussion_def bind_Inr)


lemma filter_throwing_defined:
  "filter_throwing f xs = Inr ys \<Longrightarrow> \<forall>x\<in>set xs. \<exists>b. f x = Inr b"
  by (induction xs arbitrary: ys) (auto split: sum.splits)

lemma keepItem_Inr:
  "keepItem excluded item = Inr b \<Longrightarrow> excludedUsers config = Some excluded \<Longrightarrow>
   b = (\<not> matchesExcluded config item)"
  by (cases "login (user item)")
     (auto simp: keepItem_def bind_def matchesExcluded_def excludedList_def list_ex_iff)

lemma keepItem_defined:
  "loginIsString item \<Longrightarrow> \<exists>b. keepItem excluded item = Inr b"
  by (cases "login (user item)") (auto simp: keepItem_def bind_def loginIsString_def)

lemma matchesExcluded_none:
  "excludedList config = [] \<Longrightarrow> \<not> matchesExcluded config item"
  by (simp add: matchesExcluded_def split: jsval.splits)

lemma filterByUser_Inr:
  assumes "filterByUser config items = Inr ys"
  shows "ys = filter (\<lambda>x. \<not> matchesExcluded config x) items"
proof (cases "excludedUsers config")
  case None
  then have "excludedList config = []" by (simp add: excludedList_def)
  with None assms show ?thesis by (simp add: filterByUser_def matchesExcluded_none)
next
  case (Some excluded)
  show ?thesis
  proof (cases "excluded = []")
    case True
    with Some have "excludedList config = []" by (simp add: excludedList_def)
    with Some True assms show ?thesis by (simp add: filterByUser_def matchesExcluded_none)
  next
    case False
    with Some assms have ft: "filter_throwing (keepItem excluded) items = Inr ys"
      by (simp add: filterByUser_def)
    have "\<forall>x\<in>set items. (keepItem excluded x = Inr True) = (\<not> matchesExcluded config x)"
    proof
      fix x assume "x \<in> set items"
      with filter_throwing_defined [OF ft] obtain b where b: "keepItem excluded x = Inr b"
        by blast
      from keepItem_Inr [OF b Some] b
      show "(keepItem excluded x = Inr True) = (\<not> matchesExcluded config x)" by auto
    qed
    then have "filter (\<lambda>x. keepItem excluded x = Inr True) items
               = filter (\<lambda>x. \<not> matchesExcluded config x) items"
      by (intro filter_cong) auto
    with filter_throwing_Inr [OF ft] show ?thesis by simp
  qed
qed

lemma filterByUser_defined:
  assumes "\<forall>x\<in>set items. loginIsString x"
  shows "\<exists>ys. filterByUser config items = Inr ys"
proof -
  have "\<And>excluded. \<exists>ys. filter_throwing (keepItem excluded) items = Inr ys"
    using assms by (intro filter_throwing_total) (auto intro: keepItem_defined)
  then show ?thesis by (auto simp: filterByUser_def split: option.splits)
qed

lemma filterByUser_all:
  "filterByUser config items = Inr ys \<Longrightarrow> \<forall>x\<in>set items. P x \<Longrightarrow>
   \<forall>x\<in>set ys. P x \<and> \<not> matchesExcluded config x"
  by (drule filterByUser_Inr) auto

lemma fetchIssues_repo_type:
  assumes "fetchIssues_repo p config org st repo w = (Inr items, w')"
  shows "\<forall>x\<in>set items. type x = Issue"
proof -
  obtain r w1 where g: "githubFetch p config
      (''/repos/'' @ org @ ''/'' @ repo @ ''/issues?'' @ listParams p st) w = (r, w1)"
    by (cases "githubFetch p config
      (''/repos/'' @ org @ ''/'' @ repo @ ''/issues?'' @ listParams p st) w")
  from assms g obtain actual where
    "map_throwing (\<lambda>item. bind (transformGitHubItem item Issue)
        (\<lambda>it. Inr (it\<lparr>repository := JStr repo\<rparr>))) actual = Inr items"
    by (cases r) (auto simp: fetchIssues_repo_def bind_Inr)
  then show ?thesis
    by (rule map_throwing_all) (auto simp: bind_Inr dest: transformGitHubItem_type)
qed

lemma fetchPullRequests_repo_type:
  assumes "fetchPullRequests_repo p config org st repo w = (Inr items, w')"
  shows "\<forall>x\<in>set items. type x = Pr"
proof -
  obtain r w1 where g: "githubFetch p config
      (''/repos/'' @ org @ ''/'' @ repo @ ''/pulls?'' @ listParams p st) w = (r, w1)"
    by (cases "githubFetch p config
      (''/repos/'' @ org @ ''/'' @ repo @ ''/pulls?'' @ listParams p st) w")
  from assms g obtain arr where
    "map_throwing (\<lambda>item. bind (transformGitHubItem item Pr)
        (\<lambda>it. Inr (it\<lparr>repository := JStr repo\<rparr>))) arr = Inr items"
    by (cases r) (auto simp: fetchPullRequests_repo_def bind_Inr)
  then show ?thesis
    by (rule map_throwing_all) (auto simp: bind_Inr dest: transformGitHubItem_type)
qed

lemma fetchDiscussions_repo_type:
  assumes "fetchDiscussions_repo p config org repo w = (Inr items, w')"
  shows "\<forall>x\<in>set items. type x = Discussion"
proof -
  obtain r w1 where g: "githubGraphQL p config discussionsQuery
             (JObj [(''owner'', JStr org), (''repo'', repo)]) w = (r, w1)"
    by (cases "githubGraphQL p config discussionsQuery
             (JObj [(''owner'', JStr org), (''repo'', repo)]) w")
  from assms g have "items = [] \<or> (\<exists>arr. map_throwing (transformDiscussion repo) arr = Inr items)"
    by (cases r) (auto simp: fetchDiscussions_repo_def bind_Inr Let_def split: if_splits)
  then show ?thesis
    by (auto dest: map_throwing_all [where P = "\<lambda>x. type x = Discussion"] 
             simp: transformDiscussion_type)
qed


lemma fetchIssues_body_items:
  assumes "fetchIssues_body p config org st repos w = (Inr xs, w')"
  shows "\<forall>x\<in>set xs. type x = Issue \<and> \<not> matchesExcluded config x"
proof (cases "repos = []")
  case False
  obtain allItems w1 where
    l: "for_each_repo (fetchIssues_repo p config org st) repos [] w = (allItems, w1)"
    by (cases "for_each_repo (fetchIssues_repo p config org st) repos [] w")
  have "\<forall>x\<in>set (fst (for_each_repo (fetchIssues_repo p config org st) repos [] w)). type x = Issue"
    by (rule for_each_repo_all) (auto dest: fetchIssues_repo_type)
  with l have t: "\<forall>x\<in>set allItems. type x = Issue" by simp
  from assms False l have "filterByUser config allItems = Inr xs"
    by (simp add: fetchIssues_body_def)
  from filterByUser_all [OF this t] show ?thesis .
next
  case True
  define ep where "ep = ''/search/issues?'' @ queryParams p config
     (trim (buildRepoFilter org repos @ '' is:issue '' @ (if st = ''all'' then [] else ''is:'' @ st)))"
  obtain r w1 where g: "githubFetch p config ep w = (r, w1)"
    by (cases "githubFetch p config ep w")
  from assms True g have
    "xs = [] \<or> (\<exists>arr ys. map_throwing (\<lambda>item. transformGitHubItem item Issue) arr = Inr ys
                       \<and> filterByUser config ys = Inr xs)"
    by (cases r) (auto simp: fetchIssues_body_def ep_def bind_Inr Let_def split: if_splits)
  then show ?thesis
  proof
    assume "xs = []" then show ?thesis by simp
  next
    assume "\<exists>arr ys. map_throwing (\<lambda>item. transformGitHubItem item Issue) arr = Inr ys
                       \<and> filterByUser config ys = Inr xs"
    then obtain arr ys where m: "map_throwing (\<lambda>item. transformGitHubItem item Issue) arr = Inr ys"
      and f: "filterByUser config ys = Inr xs" by blast
    from m have "\<forall>y\<in>set ys. type y = Issue"
      by (rule map_throwing_all) (rule transformGitHubItem_type)
    from filterByUser_all [OF f this] show ?thesis .
  qed
qed

lemma fetchIssues_items:
  assumes "fetchIssues p config org st repos w = (r, w')"
  shows "\<exists>xs. r = Inr xs \<and> (\<forall>x\<in>set xs. type x = Issue \<and> \<not> matchesExcluded config x)"
proof (cases "fst (fetchIssues_body p config org st repos w)")
  case (Inl e)
  with assms have "r = Inr []"
    by (cases "fetchIssues_body p config org st repos w") (auto simp: fetchIssues_def try_catch_def)
  then show ?thesis by simp
next
  case (Inr xs)
  then obtain w2 where b: "fetchIssues_body p config org st repos w = (Inr xs, w2)"
    by (cases "fetchIssues_body p config org st repos w") simp
  from assms have "r = fst (fetchIssues p config org st repos w)" by simp
  with try_catch_pass [OF Inr, of "[]"] have "r = Inr xs" by (simp add: fetchIssues_def)
  with fetchIssues_body_items [OF b] show ?thesis by simp
qed

lemma fetchPullRequests_body_items:
  assumes "fetchPullRequests_body p config org st repos w = (Inr xs, w')"
  shows "\<forall>x\<in>set xs. type x = Pr \<and> \<not> matchesExcluded config x"
proof (cases "repos = []")
  case False
  obtain allItems w1 where
    l: "for_each_repo (fetchPullRequests_repo p config org st) repos [] w = (allItems, w1)"
    by (cases "for_each_repo (fetchPullRequests_repo p config org st) repos [] w")
  have "\<forall>x\<in>set (fst (for_each_repo (fetchPullRequests_repo p config org st) repos [] w)). type x = Pr"
    by (rule for_each_repo_all) (auto dest: fetchPullRequests_repo_type)
  with l have t: "\<forall>x\<in>set allItems. type x = Pr" by simp
  from assms False l have "filterByUser config allItems = Inr xs"
    by (simp add: fetchPullRequests_body_def)
  from filterByUser_all [OF this t] show ?thesis .
next
  case True
  define ep where "ep = ''/search/issues?'' @ queryParams p config
     (trim (buildRepoFilter org repos @ '' is:pr '' @ (if st = ''all'' then [] else ''is:'' @ st)))"
  obtain r w1 where g: "githubFetch p config ep w = (r, w1)"
    by (cases "githubFetch p config ep w")
  from assms True g have
    "xs = [] \<or> (\<exists>arr ys. map_throwing (\<lambda>item. transformGitHubItem item Pr) arr = Inr ys
                       \<and> filterByUser config ys = Inr xs)"
    by (cases r) (auto simp: fetchPullRequests_body_def ep_def bind_Inr Let_def split: if_splits)
  then show ?thesis
  proof
    assume "xs = []" then show ?thesis by simp
  next
    assume "\<exists>arr ys. map_throwing (\<lambda>item. transformGitHubItem item Pr) arr = Inr ys
                       \<and> filterByUser config ys = Inr xs"
    then obtain arr ys where m: "map_throwing (\<lambda>item. transformGitHubItem item Pr) arr = Inr ys"
      and f: "filterByUser config ys = Inr xs" by blast
    from m have "\<forall>y\<in>set ys. type y = Pr"
      by (rule map_throwing_all) (rule transformGitHubItem_type)
    from filterByUser_all [OF f this] show ?thesis .
  qed
qed

lemma fetchPullRequests_items:
  assumes "fetchPullRequests p config org st repos w = (r, w')"
  shows "\<exists>xs. r = Inr xs \<and> (\<forall>x\<in>set xs. type x = Pr \<and> \<not> matchesExcluded config x)"
proof (cases "fst (fetchPullRequests_body p config org st repos w)")
  case (Inl e)
  with assms have "r = Inr []"
    by (cases "fetchPullRequests_body p config org st repos w") (auto simp: fetchPullRequests_def try_catch_def)
  then show ?thesis by simp
next
  case (Inr xs)
  then obtain w2 where b: "fetchPullRequests_body p config org st repos w = (Inr xs, w2)"
    by (cases "fetchPullRequests_body p config org st repos w") simp
  from assms have "r = fst (fetchPullRequests p config org st repos w)" by simp
  with try_catch_pass [OF Inr, of "[]"] have "r = Inr xs" by (simp add: fetchPullRequests_def)
  with fetchPullRequests_body_items [OF b] show ?thesis by simp
qed

lemma fetchDiscussions_body_items:
  assumes "fetchDiscussions_body p config org repos w = (Inr xs, w')"
  shows "\<forall>x\<in>set xs. type x = Discussion \<and> \<not> matchesExcluded config x"
proof -
  obtain r0 w1 where c: "(if length repos > 0 then (Inr (map JStr repos), w)
            else getOrgRepositories p config org w) = (r0, w1)"
    by (cases "(if length repos > 0 then (Inr (map JStr repos), w)
            else getOrgRepositories p config org w)")
  show ?thesis
  proof (cases r0)
    case (Inl e)
    with assms c show ?thesis by (simp add: fetchDiscussions_body_def)
  next
    case (Inr reposToFetch)
    show ?thesis
    proof (cases "reposToFetch = []")
      case True
      with assms c Inr show ?thesis by (auto simp: fetchDiscussions_body_def)
    next
      case False
      obtain allItems w2 where
        l: "for_each_repo (fetchDiscussions_repo p config org) reposToFetch [] w1 = (allItems, w2)"
        by (cases "for_each_repo (fetchDiscussions_repo p config org) reposToFetch [] w1")
      have "\<forall>x\<in>set (fst (for_each_repo (fetchDiscussions_repo p config org) reposToFetch [] w1)).
              type x = Discussion"
        by (rule for_each_repo_all) (auto dest: fetchDiscussions_repo_type)
      with l have t: "\<forall>x\<in>set allItems. type x = Discussion" by simp
      from assms c Inr False l have "filterByUser config allItems = Inr xs"
        by (simp add: fetchDiscussions_body_def)
      from filterByUser_all [OF this t] show ?thesis .
    qed
  qed
qed

lemma fetchDiscussions_items:
  assumes "fetchDiscussions p config org repos w = (r, w')"
  shows "\<exists>xs. r = Inr xs \<and> (\<forall>x\<in>set xs. type x = Discussion \<and> \<not> matchesExcluded config x)"
proof (cases "fst (fetchDiscussions_body p config org repos w)")
  case (Inl e)
  with assms have "r = Inr []"
    by (cases "fetchDiscussions_body p config org repos w")
       (auto simp: fetchDiscussions_def try_catch_def)
  then show ?thesis by simp
next
  case (Inr xs)
  then obtain w2 where b: "fetchDiscussions_body p config org repos w = (Inr xs, w2)"
    by (cases "fetchDiscussions_body p config org repos w") simp
  from assms have "r = fst (fetchDiscussions p config org repos w)" by simp
  with try_catch_pass [OF Inr, of "[]"] have "r = Inr xs" by (simp add: fetchDiscussions_def)
  with fetchDiscussions_body_items [OF b] show ?thesis by simp
qed


lemma collectItems_shape:
  fixes options :: FilterOptions
  defines "ty \<equiv> (case filter_type options of None \<Rightarrow> TypeAll | Some t \<Rightarrow> t)"
  shows "\<exists>xs1 xs2 xs3 items w'.
           (\<forall>x\<in>set xs1. type x = Issue \<and> \<not> matchesExcluded config x)
         \<and> (\<forall>x\<in>set xs2. type x = Pr \<and> \<not> matchesExcluded config x)
         \<and> (\<forall>x\<in>set xs3. type x = Discussion \<and> \<not> matchesExcluded config x)
         \<and> items = (if ty = TypeAll \<or> ty = TypeIssue then xs1 else [])
                  @ (if ty = TypeAll \<or> ty = TypePr then xs2 else [])
                  @ (if (ty = TypeAll \<or> ty = TypeDiscussion) \<and> enableDiscussions config
                     then xs3 else [])
         \<and> collectItems p config org options w =
             (Inr (case filter_repository options of
                     None \<Rightarrow> items
                   | Some repo \<Rightarrow>
                       if repo \<noteq> [] \<and> repo \<noteq> ''all''
                       then filter (\<lambda>item. repository item = JStr repo) items
                       else items), w')"
proof -
  define st where "st = (case filter_state options of None \<Rightarrow> ''open'' | Some s \<Rightarrow> s)"
  define repos where "repos = allowedRepositories config"
  obtain r1 w1 where f1: "fetchIssues p config org st repos w = (r1, w1)"
    by (cases "fetchIssues p config org st repos w")
  from fetchIssues_items [OF f1] obtain xs1 where r1: "r1 = Inr xs1"
    and p1: "\<forall>x\<in>set xs1. type x = Issue \<and> \<not> matchesExcluded config x" by blast
  define wa where "wa = (if ty = TypeAll \<or> ty = TypeIssue then w1 else w)"
  obtain r2 w2 where f2: "fetchPullRequests p config org st repos wa = (r2, w2)"
    by (cases "fetchPullRequests p config org st repos wa")
  from fetchPullRequests_items [OF f2] obtain xs2 where r2: "r2 = Inr xs2"
    and p2: "\<forall>x\<in>set xs2. type x = Pr \<and> \<not> matchesExcluded config x" by blast
  define wb where "wb = (if ty = TypeAll \<or> ty = TypePr then w2 else wa)"
  obtain r3 w3 where f3: "fetchDiscussions p config org repos wb = (r3, w3)"
    by (cases "fetchDiscussions p config org repos wb")
  from fetchDiscussions_items [OF f3] obtain xs3 where r3: "r3 = Inr xs3"
    and p3: "\<forall>x\<in>set xs3. type x = Discussion \<and> \<not> matchesExcluded config x" by blast
  define wc where "wc = (if (ty = TypeAll \<or> ty = TypeDiscussion) \<and> enableDiscussions config
                         then w3 else wb)"
  define items where "items = (if ty = TypeAll \<or> ty = TypeIssue then xs1 else [])
                  @ (if ty = TypeAll \<or> ty = TypePr then xs2 else [])
                  @ (if (ty = TypeAll \<or> ty = TypeDiscussion) \<and> enableDiscussions config
                     then xs3 else [])"
  have "collectItems p config org options w =
             (Inr (case filter_repository options of
                     None \<Rightarrow> items
                   | Some repo \<Rightarrow>
                       if repo \<noteq> [] \<and> repo \<noteq> ''all''
                       then filter (\<lambda>item. repository item = JStr repo) items
                       else items), wc)"
    using f1 f2 f3
    unfolding collectItems_def Let_def r1 r2 r3 wa_def wb_def wc_def items_def
      st_def [symmetric] repos_def [symmetric] ty_def [symmetric]
    by (cases ty; cases "enableDiscussions config"; cases "filter_repository options")
       (simp_all add: bind_def)
  with p1 p2 p3 items_def show ?thesis by blast
qed


lemma insert_sorted_insort:
  "\<forall>y\<in>set ys. (sortCompare c x y \<le> 0) = (f x \<le> f y) \<Longrightarrow>
   insert_sorted c x ys = insort_key f x ys"
  by (induction ys) auto

lemma array_sort_sort_key:
  "\<forall>x\<in>set xs. \<forall>y\<in>set xs. (sortCompare c x y \<le> 0) = (f x \<le> f y) \<Longrightarrow>
   array_sort c xs = sort_key f xs"
proof (induction xs)
  case Nil
  show ?case by (simp add: array_sort_def)
next
  case (Cons x xs)
  have ih: "foldr (insert_sorted c) xs [] = sort_key f xs"
    using Cons by (simp add: array_sort_def)
  have "insert_sorted c x (sort_key f xs) = insort_key f x (sort_key f xs)"
    using Cons.prems by (intro insert_sorted_insort) simp
  with ih show ?case by (simp add: array_sort_def)
qed

lemma set_insert_sorted: "set (insert_sorted c x ys) = insert x (set ys)"
  by (induction ys) auto

lemma set_array_sort: "set (array_sort c xs) = set xs"
  by (induction xs) (simp_all add: array_sort_def set_insert_sorted)

lemma mset_insert_sorted: "mset (insert_sorted c x ys) = add_mset x (mset ys)"
  by (induction ys) auto

lemma mset_array_sort: "mset (array_sort c xs) = mset xs"
  by (induction xs) (simp_all add: array_sort_def mset_insert_sorted)

lemma sortCompare_updated:
  "updatedTime p x = Some tx \<Longrightarrow> updatedTime p y = Some ty \<Longrightarrow>
   sortCompare (compareUpdated p) x y = ty - tx"
  by (simp add: sortCompare_def compareUpdated_def updatedTime_def)

lemma array_sort_updated:
  assumes "\<forall>x\<in>set xs. updatedTime p x \<noteq> None"
  shows "array_sort (compareUpdated p) xs = sort_key (\<lambda>x. - the (updatedTime p x)) xs"
proof (rule array_sort_sort_key, intro ballI)
  fix x y assume "x \<in> set xs" "y \<in> set xs"
  with assms have "\<exists>tx. updatedTime p x = Some tx" "\<exists>ty. updatedTime p y = Some ty"
    by auto
  then obtain tx ty where "updatedTime p x = Some tx" "updatedTime p y = Some ty"
    by blast
  then show "(sortCompare (compareUpdated p) x y \<le> 0)
             = (- the (updatedTime p x) \<le> - the (updatedTime p y))"
    by (simp add: sortCompare_updated)
qed

lemma array_sort_sorted_stable:
  assumes "\<forall>x\<in>set xs. updatedTime p x \<noteq> None"
  shows "sorted_wrt (notEarlier p) (array_sort (compareUpdated p) xs)"
    and "mset (array_sort (compareUpdated p) xs) = mset xs"
    and "filter (\<lambda>x. updatedTime p x = Some t) (array_sort (compareUpdated p) xs)
         = filter (\<lambda>x. updatedTime p x = Some t) xs"
proof -
  let ?f = "\<lambda>x. - the (updatedTime p x)"
  let ?ys = "array_sort (compareUpdated p) xs"
  have eq: "?ys = sort_key ?f xs" by (rule array_sort_updated [OF assms])
  have all: "\<forall>x\<in>set ?ys. updatedTime p x \<noteq> None" using assms by (simp add: set_array_sort)
  have "sorted (map ?f ?ys)" unfolding eq by (rule sorted_sort_key)
  then have "sorted_wrt (\<lambda>a b. ?f a \<le> ?f b) ?ys" by (simp add: sorted_map)
  then show "sorted_wrt (notEarlier p) ?ys"
  proof (rule sorted_wrt_mono_rel [rotated])
    fix a b assume "a \<in> set ?ys" "b \<in> set ?ys" "?f a \<le> ?f b"
    with all show "notEarlier p a b" by (auto simp: notEarlier_def split: option.splits)
  qed
  show "mset ?ys = mset xs" unfolding eq by simp
  have "filter (\<lambda>x. updatedTime p x = Some t) ?ys = filter (\<lambda>x. ?f x = - t) ?ys"
    using all by (intro filter_cong) auto
  also have "\<dots> = filter (\<lambda>x. ?f x = - t) xs" unfolding eq by (rule sort_key_stable)
  also have "\<dots> = filter (\<lambda>x. updatedTime p x = Some t) xs"
    using assms by (intro filter_cong) auto
  finally show "filter (\<lambda>x. updatedTime p x = Some t) ?ys
                = filter (\<lambda>x. updatedTime p x = Some t) xs" .
qed

lemma collectItems_returns: "\<exists>items. fst (collectItems p config org options w) = Inr items"
  using collectItems_shape [where p = p and config = config and org = org and options = options and w = w] by auto

section \<open>Properties of the aggregator\<close>

text \<open>
  C1. \<open>fetchAllItems\<close> always returns, and what it returns is the sort of the sequence
  that \<open>collectItems\<close> builds (the concatenated fetches after the repository filter), a
  permutation of it. Where every \<open>updated_at\<close> of that sequence parses to a timestamp, as
  the timestamps that GitHub sends do, the result is in descending order of the parsed
  timestamps (no item is followed by one updated later) and keeps the items of each
  timestamp in their order in the sequence. (With an \<open>updated_at\<close> that is no date the
  comparator returns \<open>NaN\<close> and is no order; the language then leaves the result to the
  engine.)
\<close>

theorem fetchAllItems_sorted_stable:
  "\<exists>presort result.
      fst (collectItems p config org options w) = Inr presort
    \<and> fst (fetchAllItems p config org options w) = Inr result
    \<and> mset result = mset presort
    \<and> ((\<forall>x\<in>set presort. updatedTime p x \<noteq> None) \<longrightarrow>
          sorted_wrt (notEarlier p) result
        \<and> (\<forall>t. filter (\<lambda>x. updatedTime p x = Some t) result
               = filter (\<lambda>x. updatedTime p x = Some t) presort))"
proof -
  obtain presort where c: "fst (collectItems p config org options w) = Inr presort"
    using collectItems_returns by blast
  then have f: "fst (fetchAllItems p config org options w)
                = Inr (array_sort (compareUpdated p) presort)"
    by (cases "collectItems p config org options w") (simp add: fetchAllItems_def)
  show ?thesis
    using c f array_sort_sorted_stable [of presort p] mset_array_sort [of "compareUpdated p" presort]
    by auto
qed

lemma sample_collect_issues:
  "fst (collectItems sample_platform sample_config ''o'' (sample_options TypeIssue) sample_world)
   = Inr [sample_item 2 ''alice'' ''2024-01-01'' ''a'' Issue,
          sample_item 3 ''bob'' ''2024-02-01'' ''a'' Issue,
          sample_item 6 ''dave'' ''2024-01-01'' ''b'' Issue]"
  by code_simp

lemma sample_all_issues:
  "fst (fetchAllItems sample_platform sample_config ''o'' (sample_options TypeIssue) sample_world)
   = Inr [sample_item 3 ''bob'' ''2024-02-01'' ''a'' Issue,
          sample_item 2 ''alice'' ''2024-01-01'' ''a'' Issue,
          sample_item 6 ''dave'' ''2024-01-01'' ''b'' Issue]"
  by code_simp

theorem fetchAllItems_sorted_stable_witness:
  "map (updatedTime sample_platform)
     [sample_item 2 ''alice'' ''2024-01-01'' ''a'' Issue,
      sample_item 3 ''bob'' ''2024-02-01'' ''a'' Issue,
      sample_item 6 ''dave'' ''2024-01-01'' ''b'' Issue]
     = [Some 1704067200000, Some 1706745600000, Some 1704067200000]
   \<and> sorted_wrt (notEarlier sample_platform)
        [sample_item 3 ''bob'' ''2024-02-01'' ''a'' Issue,
         sample_item 2 ''alice'' ''2024-01-01'' ''a'' Issue,
         sample_item 6 ''dave'' ''2024-01-01'' ''b'' Issue]
   \<and> filter (\<lambda>x. updatedTime sample_platform x = Some 1704067200000)
        [sample_item 3 ''bob'' ''2024-02-01'' ''a'' Issue,
         sample_item 2 ''alice'' ''2024-01-01'' ''a'' Issue,
         sample_item 6 ''dave'' ''2024-01-01'' ''b'' Issue]
     = filter (\<lambda>x. updatedTime sample_platform x = Some 1704067200000)
        [sample_item 2 ''alice'' ''2024-01-01'' ''a'' Issue,
         sample_item 3 ''bob'' ''2024-02-01'' ''a'' Issue,
         sample_item 6 ''dave'' ''2024-01-01'' ''b'' Issue]"
proof -
  let ?presort = "[sample_item 2 ''alice'' ''2024-01-01'' ''a'' Issue,
              sample_item 3 ''bob'' ''2024-02-01'' ''a'' Issue,
              sample_item 6 ''dave'' ''2024-01-01'' ''b'' Issue]"
  have parsed: "\<forall>x\<in>set ?presort. updatedTime sample_platform x \<noteq> None"
    by (simp add: updatedTime_def sample_platform_def sample_item_def)
  from fetchAllItems_sorted_stable
         [of sample_platform sample_config "''o''" "sample_options TypeIssue" sample_world]
  obtain presort result where
    "fst (collectItems sample_platform sample_config ''o'' (sample_options TypeIssue)
            sample_world) = Inr presort"
    "fst (fetchAllItems sample_platform sample_config ''o'' (sample_options TypeIssue)
            sample_world) = Inr result"
    "(\<forall>x\<in>set presort. updatedTime sample_platform x \<noteq> None) \<longrightarrow>
          sorted_wrt (notEarlier sample_platform) result
        \<and> (\<forall>t. filter (\<lambda>x. updatedTime sample_platform x = Some t) result
               = filter (\<lambda>x. updatedTime sample_platform x = Some t) presort)"
    by blast
  moreover have "map (updatedTime sample_platform) ?presort
                 = [Some 1704067200000, Some 1706745600000, Some 1704067200000]"
    by (simp add: updatedTime_def sample_platform_def sample_item_def)
  ultimately show ?thesis
    using sample_collect_issues sample_all_issues parsed by simp
qed

text \<open>
  C2. \<open>fetchAllItems\<close> always returns. With type \<open>issue\<close> every returned item is an
  issue, with \<open>pr\<close> a pull request, with \<open>discussion\<close> a discussion; and whatever the
  type, no discussion is returned unless \<open>enableDiscussions\<close> is set.
\<close>

theorem fetchAllItems_type_filter:
  "\<exists>items.
      fst (fetchAllItems p config org options w) = Inr items
    \<and> (filter_type options = Some TypeIssue \<longrightarrow> (\<forall>x\<in>set items. type x = Issue))
    \<and> (filter_type options = Some TypePr \<longrightarrow> (\<forall>x\<in>set items. type x = Pr))
    \<and> (filter_type options = Some TypeDiscussion \<longrightarrow> (\<forall>x\<in>set items. type x = Discussion))
    \<and> (\<not> enableDiscussions config \<longrightarrow> (\<forall>x\<in>set items. type x \<noteq> Discussion))"
proof -
  from collectItems_shape [where p = p and config = config and org = org and options = options and w = w]
  obtain xs1 xs2 xs3 items w' where
    p1: "\<forall>x\<in>set xs1. type x = Issue \<and> \<not> matchesExcluded config x" and
    p2: "\<forall>x\<in>set xs2. type x = Pr \<and> \<not> matchesExcluded config x" and
    p3: "\<forall>x\<in>set xs3. type x = Discussion \<and> \<not> matchesExcluded config x" and
    items: "items =
       (if (case filter_type options of None \<Rightarrow> TypeAll | Some t \<Rightarrow> t) = TypeAll
          \<or> (case filter_type options of None \<Rightarrow> TypeAll | Some t \<Rightarrow> t) = TypeIssue
        then xs1 else [])
     @ (if (case filter_type options of None \<Rightarrow> TypeAll | Some t \<Rightarrow> t) = TypeAll
          \<or> (case filter_type options of None \<Rightarrow> TypeAll | Some t \<Rightarrow> t) = TypePr
        then xs2 else [])
     @ (if ((case filter_type options of None \<Rightarrow> TypeAll | Some t \<Rightarrow> t) = TypeAll
          \<or> (case filter_type options of None \<Rightarrow> TypeAll | Some t \<Rightarrow> t) = TypeDiscussion)
          \<and> enableDiscussions config
        then xs3 else [])" and
    c: "collectItems p config org options w =
             (Inr (case filter_repository options of
                     None \<Rightarrow> items
                   | Some repo \<Rightarrow>
                       if repo \<noteq> [] \<and> repo \<noteq> ''all''
                       then filter (\<lambda>item. repository item = JStr repo) items
                       else items), w')"
    by blast
  define presort where "presort = (case filter_repository options of
                     None \<Rightarrow> items
                   | Some repo \<Rightarrow>
                       if repo \<noteq> [] \<and> repo \<noteq> ''all''
                       then filter (\<lambda>item. repository item = JStr repo) items
                       else items)"
  have sub: "set presort \<subseteq> set items"
    by (auto simp: presort_def split: option.splits)
  have f: "fst (fetchAllItems p config org options w) = Inr (array_sort (compareUpdated p) presort)"
    using c by (simp add: fetchAllItems_def presort_def)
  have s: "set (array_sort (compareUpdated p) presort) \<subseteq> set items"
    using sub by (simp add: set_array_sort)
  have "filter_type options = Some TypeIssue \<Longrightarrow> \<forall>x\<in>set items. type x = Issue"
    using p1 by (simp add: items)
  moreover have "filter_type options = Some TypePr \<Longrightarrow> \<forall>x\<in>set items. type x = Pr"
    using p2 by (simp add: items)
  moreover have "filter_type options = Some TypeDiscussion \<Longrightarrow> \<forall>x\<in>set items. type x = Discussion"
    using p3 by (simp add: items)
  moreover have "\<not> enableDiscussions config \<Longrightarrow> \<forall>x\<in>set items. type x \<noteq> Discussion"
    using p1 p2 by (auto simp: items)
  ultimately show ?thesis using f s by (intro exI [of _ "array_sort (compareUpdated p) presort"]) blast
qed

lemma sample_all_prs:
  "fst (fetchAllItems sample_platform sample_config ''o'' (sample_options TypePr) sample_world)
   = Inr [sample_item 5 ''carol'' ''2024-02-01'' ''a'' Pr]"
  by code_simp

lemma sample_all_discussions:
  "fst (fetchAllItems sample_platform sample_config ''o'' (sample_options TypeDiscussion)
          sample_world)
   = Inr [sample_discussion_item 1 ''2024-02-01'', sample_discussion_item 1 ''2024-01-01'']"
  by code_simp

lemma sample_all_without_discussions:
  "fst (fetchAllItems sample_platform (sample_config\<lparr>enableDiscussions := False\<rparr>) ''o''
          (sample_options TypeAll) sample_world)
   = Inr [sample_item 3 ''bob'' ''2024-02-01'' ''a'' Issue,
          sample_item 5 ''carol'' ''2024-02-01'' ''a'' Pr,
          sample_item 2 ''alice'' ''2024-01-01'' ''a'' Issue,
          sample_item 6 ''dave'' ''2024-01-01'' ''b'' Issue]"
  by code_simp

theorem fetchAllItems_type_filter_witness:
  "map type [sample_item 3 ''bob'' ''2024-02-01'' ''a'' Issue,
             sample_item 2 ''alice'' ''2024-01-01'' ''a'' Issue,
             sample_item 6 ''dave'' ''2024-01-01'' ''b'' Issue] = [Issue, Issue, Issue]
   \<and> map type [sample_item 5 ''carol'' ''2024-02-01'' ''a'' Pr] = [Pr]
   \<and> map type [sample_discussion_item 1 ''2024-02-01'', sample_discussion_item 1 ''2024-01-01'']
       = [Discussion, Discussion]
   \<and> map type [sample_item 3 ''bob'' ''2024-02-01'' ''a'' Issue,
               sample_item 5 ''carol'' ''2024-02-01'' ''a'' Pr,
               sample_item 2 ''alice'' ''2024-01-01'' ''a'' Issue,
               sample_item 6 ''dave'' ''2024-01-01'' ''b'' Issue] = [Issue, Pr, Issue, Issue]"
  using fetchAllItems_type_filter
          [of sample_platform sample_config "''o''" "sample_options TypeIssue" sample_world]
        fetchAllItems_type_filter
          [of sample_platform sample_config "''o''" "sample_options TypePr" sample_world]
        fetchAllItems_type_filter
          [of sample_platform sample_config "''o''" "sample_options TypeDiscussion" sample_world]
        fetchAllItems_type_filter
          [of sample_platform "sample_config\<lparr>enableDiscussions := False\<rparr>" "''o''"
              "sample_options TypeAll" sample_world]
  unfolding sample_all_issues sample_all_prs sample_all_discussions
    sample_all_without_discussions
  by (simp add: sample_options_def sample_item_def sample_discussion_item_def)

section \<open>Properties of the fetchers\<close>

lemma for_each_repo_skip:
  assumes "for_each_repo step pre [] w = (xs, w1)"
    and "step r w1 = (Inl e, w2)"
    and "for_each_repo step post [] w2 = (ys, w3)"
  shows "for_each_repo step (pre @ r # post) [] w = (xs @ ys, w3)"
proof -
  have "for_each_repo step (pre @ r # post) [] w = for_each_repo step (r # post) xs w1"
    using assms(1) by (simp add: for_each_repo_append)
  also have "\<dots> = for_each_repo step post xs w2"
    using assms(2) by simp
  also have "\<dots> = (xs @ ys, w3)"
    using assms(3) for_each_repo_acc [of step post xs w2] by simp
  finally show ?thesis .
qed


lemma fetchIssues_allow_list:
  "repos \<noteq> [] \<Longrightarrow>
   fetchIssues p config org st repos w =
     (case for_each_repo (fetchIssues_repo p config org st) repos [] w of
        (allItems, w1) \<Rightarrow>
          ((case filterByUser config allItems of Inl e \<Rightarrow> Inr [] | Inr v \<Rightarrow> Inr v), w1))"
  by (simp add: fetchIssues_def fetchIssues_body_def try_catch_def split: prod.splits sum.splits)

lemma fetchPullRequests_allow_list:
  "repos \<noteq> [] \<Longrightarrow>
   fetchPullRequests p config org st repos w =
     (case for_each_repo (fetchPullRequests_repo p config org st) repos [] w of
        (allItems, w1) \<Rightarrow>
          ((case filterByUser config allItems of Inl e \<Rightarrow> Inr [] | Inr v \<Rightarrow> Inr v), w1))"
  by (simp add: fetchPullRequests_def fetchPullRequests_body_def try_catch_def
           split: prod.splits sum.splits)

lemma fetchDiscussions_allow_list:
  "repos \<noteq> [] \<Longrightarrow>
   fetchDiscussions p config org repos w =
     (case for_each_repo (fetchDiscussions_repo p config org) (map JStr repos) [] w of
        (allItems, w1) \<Rightarrow>
          ((case filterByUser config allItems of Inl e \<Rightarrow> Inr [] | Inr v \<Rightarrow> Inr v), w1))"
  by (simp add: fetchDiscussions_def fetchDiscussions_body_def try_catch_def
           split: prod.splits sum.splits)

lemma loop_skip_result:
  assumes "for_each_repo step pre [] w = (xs, w1)"
    and "step r w1 = (res, w2)"
    and "for_each_repo step post [] w2 = (ys, w3)"
    and "res = Inl e"
  shows "(case for_each_repo step (pre @ r # post) [] w of
            (allItems, w') \<Rightarrow>
              ((case filterByUser config allItems of Inl e \<Rightarrow> Inr [] | Inr v \<Rightarrow> Inr v), w'))
         = ((case filterByUser config (xs @ ys) of Inl e \<Rightarrow> Inr [] | Inr v \<Rightarrow> Inr v), w3)"
  using for_each_repo_skip [of step pre w xs w1 r e w2 post ys w3] assms by simp

text \<open>
  C3. An allow-list \<open>pre @ r # post\<close> given to \<open>fetchIssues\<close>, \<open>fetchPullRequests\<close> or
  \<open>fetchDiscussions\<close>, where the fetch of repository \<open>r\<close> raises in the world that the
  loop has reached after \<open>pre\<close>. The call does not raise. With \<open>xs\<close> the items that the
  repositories of \<open>pre\<close> contribute and \<open>ys\<close> those that the repositories of \<open>post\<close>
  contribute after the failed attempt, it returns what the user exclusion leaves of
  \<open>xs @ ys\<close> (the empty list where the exclusion itself raises): \<open>r\<close> contributes nothing
  and the contributions of the others are all there.
\<close>

theorem per_repository_failure_skipped:
  "(case for_each_repo (fetchIssues_repo p config org st) pre [] w of (xs, w1) \<Rightarrow>
    case fetchIssues_repo p config org st r w1 of (res, w2) \<Rightarrow>
    case for_each_repo (fetchIssues_repo p config org st) post [] w2 of (ys, w3) \<Rightarrow>
      (\<exists>e. res = Inl e) \<longrightarrow>
        fetchIssues p config org st (pre @ r # post) w =
          ((case filterByUser config (xs @ ys) of Inl e \<Rightarrow> Inr [] | Inr v \<Rightarrow> Inr v), w3))
   \<and> (case for_each_repo (fetchPullRequests_repo p config org st) pre [] w of (xs, w1) \<Rightarrow>
      case fetchPullRequests_repo p config org st r w1 of (res, w2) \<Rightarrow>
      case for_each_repo (fetchPullRequests_repo p config org st) post [] w2 of (ys, w3) \<Rightarrow>
        (\<exists>e. res = Inl e) \<longrightarrow>
          fetchPullRequests p config org st (pre @ r # post) w =
            ((case filterByUser config (xs @ ys) of Inl e \<Rightarrow> Inr [] | Inr v \<Rightarrow> Inr v), w3))
   \<and> (case for_each_repo (fetchDiscussions_repo p config org) (map JStr pre) [] w of (xs, w1) \<Rightarrow>
      case fetchDiscussions_repo p config org (JStr r) w1 of (res, w2) \<Rightarrow>
      case for_each_repo (fetchDiscussions_repo p config org) (map JStr post) [] w2 of (ys, w3) \<Rightarrow>
        (\<exists>e. res = Inl e) \<longrightarrow>
          fetchDiscussions p config org (pre @ r # post) w =
            ((case filterByUser config (xs @ ys) of Inl e \<Rightarrow> Inr [] | Inr v \<Rightarrow> Inr v), w3))"
proof (intro conjI)
  show "case for_each_repo (fetchIssues_repo p config org st) pre [] w of (xs, w1) \<Rightarrow>
    case fetchIssues_repo p config org st r w1 of (res, w2) \<Rightarrow>
    case for_each_repo (fetchIssues_repo p config org st) post [] w2 of (ys, w3) \<Rightarrow>
      (\<exists>e. res = Inl e) \<longrightarrow>
        fetchIssues p config org st (pre @ r # post) w =
          ((case filterByUser config (xs @ ys) of Inl e \<Rightarrow> Inr [] | Inr v \<Rightarrow> Inr v), w3)"
    by (auto simp: fetchIssues_allow_list split: prod.splits
             dest: loop_skip_result [where config = config])
  show "case for_each_repo (fetchPullRequests_repo p config org st) pre [] w of (xs, w1) \<Rightarrow>
      case fetchPullRequests_repo p config org st r w1 of (res, w2) \<Rightarrow>
      case for_each_repo (fetchPullRequests_repo p config org st) post [] w2 of (ys, w3) \<Rightarrow>
        (\<exists>e. res = Inl e) \<longrightarrow>
          fetchPullRequests p config org st (pre @ r # post) w =
            ((case filterByUser config (xs @ ys) of Inl e \<Rightarrow> Inr [] | Inr v \<Rightarrow> Inr v), w3)"
    by (auto simp: fetchPullRequests_allow_list split: prod.splits
             dest: loop_skip_result [where config = config])
  show "case for_each_repo (fetchDiscussions_repo p config org) (map JStr pre) [] w of (xs, w1) \<Rightarrow>
      case fetchDiscussions_repo p config org (JStr r) w1 of (res, w2) \<Rightarrow>
      case for_each_repo (fetchDiscussions_repo p config org) (map JStr post) [] w2 of (ys, w3) \<Rightarrow>
        (\<exists>e. res = Inl e) \<longrightarrow>
          fetchDiscussions p config org (pre @ r # post) w =
            ((case filterByUser config (xs @ ys) of Inl e \<Rightarrow> Inr [] | Inr v \<Rightarrow> Inr v), w3)"
    using fetchDiscussions_allow_list [of "pre @ r # post" p config org w]
    by (auto split: prod.splits dest: loop_skip_result [where config = config])
qed

lemma sample_down_issues:
  "fst (fetchIssues_repo sample_platform sample_config ''o'' ''open'' ''down''
         (snd (for_each_repo (fetchIssues_repo sample_platform sample_config ''o'' ''open'')
                 [''a''] [] sample_world)))
   = Inl (Error ''GitHub API request failed: Internal Server Error'')"
  by code_simp

lemma sample_down_pulls:
  "fst (fetchPullRequests_repo sample_platform sample_config ''o'' ''open'' ''down''
         (snd (for_each_repo (fetchPullRequests_repo sample_platform sample_config ''o'' ''open'')
                 [''a''] [] sample_world)))
   = Inl (Error ''GitHub API request failed: Internal Server Error'')"
  by code_simp

lemma sample_down_discussions:
  "fst (fetchDiscussions_repo sample_platform sample_config ''o'' (JStr ''down'')
         (snd (for_each_repo (fetchDiscussions_repo sample_platform sample_config ''o'')
                 (map JStr [''a'']) [] sample_world)))
   = Inl (Error ''GitHub GraphQL request failed: Internal Server Error'')"
  by code_simp

lemma sample_rest_issues:
  "(case filterByUser sample_config
      (fst (for_each_repo (fetchIssues_repo sample_platform sample_config ''o'' ''open'')
              [''a''] [] sample_world)
       @ fst (for_each_repo (fetchIssues_repo sample_platform sample_config ''o'' ''open'')
              [''b''] []
              (snd (fetchIssues_repo sample_platform sample_config ''o'' ''open'' ''down''
                 (snd (for_each_repo
                         (fetchIssues_repo sample_platform sample_config ''o'' ''open'')
                         [''a''] [] sample_world)))))) of
      Inl e \<Rightarrow> Inr [] | Inr v \<Rightarrow> Inr v)
   = (Inr [sample_item 2 ''alice'' ''2024-01-01'' ''a'' Issue,
          sample_item 3 ''bob'' ''2024-02-01'' ''a'' Issue,
          sample_item 6 ''dave'' ''2024-01-01'' ''b'' Issue] :: error + GitHubItem list)"
  by code_simp

lemma sample_rest_pulls:
  "(case filterByUser sample_config
      (fst (for_each_repo (fetchPullRequests_repo sample_platform sample_config ''o'' ''open'')
              [''a''] [] sample_world)
       @ fst (for_each_repo (fetchPullRequests_repo sample_platform sample_config ''o'' ''open'')
              [''b''] []
              (snd (fetchPullRequests_repo sample_platform sample_config ''o'' ''open'' ''down''
                 (snd (for_each_repo
                         (fetchPullRequests_repo sample_platform sample_config ''o'' ''open'')
                         [''a''] [] sample_world)))))) of
      Inl e \<Rightarrow> Inr [] | Inr v \<Rightarrow> Inr v)
   = (Inr [sample_item 5 ''carol'' ''2024-02-01'' ''a'' Pr] :: error + GitHubItem list)"
  by code_simp

lemma sample_rest_discussions:
  "(case filterByUser sample_config
      (fst (for_each_repo (fetchDiscussions_repo sample_platform sample_config ''o'')
              (map JStr [''a'']) [] sample_world)
       @ fst (for_each_repo (fetchDiscussions_repo sample_platform sample_config ''o'')
              (map JStr [''b'']) []
              (snd (fetchDiscussions_repo sample_platform sample_config ''o'' (JStr ''down'')
                 (snd (for_each_repo
                         (fetchDiscussions_repo sample_platform sample_config ''o'')
                         (map JStr [''a'']) [] sample_world)))))) of
      Inl e \<Rightarrow> Inr [] | Inr v \<Rightarrow> Inr v)
   = (Inr [sample_discussion_item 1 ''2024-01-01'', sample_discussion_item 1 ''2024-02-01'']
        :: error + GitHubItem list)"
  by code_simp

theorem per_repository_failure_skipped_witness:
  "fst (fetchIssues_repo sample_platform sample_config ''o'' ''open'' ''down''
         (snd (for_each_repo (fetchIssues_repo sample_platform sample_config ''o'' ''open'')
                 [''a''] [] sample_world)))
     = Inl (Error ''GitHub API request failed: Internal Server Error'')
   \<and> fst (fetchIssues sample_platform sample_config ''o'' ''open'' ([''a''] @ ''down'' # [''b''])
           sample_world)
     = Inr [sample_item 2 ''alice'' ''2024-01-01'' ''a'' Issue,
            sample_item 3 ''bob'' ''2024-02-01'' ''a'' Issue,
            sample_item 6 ''dave'' ''2024-01-01'' ''b'' Issue]
   \<and> fst (fetchPullRequests sample_platform sample_config ''o'' ''open''
           ([''a''] @ ''down'' # [''b'']) sample_world)
     = Inr [sample_item 5 ''carol'' ''2024-02-01'' ''a'' Pr]
   \<and> fst (fetchDiscussions sample_platform sample_config ''o'' ([''a''] @ ''down'' # [''b''])
           sample_world)
     = Inr [sample_discussion_item 1 ''2024-01-01'', sample_discussion_item 1 ''2024-02-01'']"
  using per_repository_failure_skipped
          [where p = sample_platform and config = sample_config and org = "''o''"
             and st = "''open''" and pre = "[''a'']" and w = sample_world
             and r = "''down''" and post = "[''b'']"]
  by (simp only: split_beta sample_down_issues sample_down_pulls sample_down_discussions
        sample_rest_issues sample_rest_pulls sample_rest_discussions)
     simp

lemma try_catch_result:
  "\<exists>v. fst (try_catch r d) = Inr v \<and> (\<forall>e. fst r = Inl e \<longrightarrow> v = d)
         \<and> (\<forall>x. fst r = Inr x \<longrightarrow> v = x)"
  by (cases r; cases "fst r") (auto simp: try_catch_def)

text \<open>
  C4. None of \<open>fetchIssues\<close>, \<open>fetchPullRequests\<close>, \<open>fetchDiscussions\<close>,
  \<open>getOrgRepositories\<close>, \<open>fetchOrganization\<close> and \<open>fetchReadme\<close> raises, whatever the
  input, the cache and the network are. Where what its \<open>try\<close> encloses raises, a fetcher
  of a sequence returns the empty sequence, and \<open>fetchOrganization\<close> and \<open>fetchReadme\<close>
  return \<open>null\<close>.
\<close>

theorem fetchers_never_raise:
  "(\<exists>v. fst (fetchIssues p config org st repos w) = Inr v
        \<and> (\<forall>e. fst (fetchIssues_body p config org st repos w) = Inl e \<longrightarrow> v = []))
   \<and> (\<exists>v. fst (fetchPullRequests p config org st repos w) = Inr v
        \<and> (\<forall>e. fst (fetchPullRequests_body p config org st repos w) = Inl e \<longrightarrow> v = []))
   \<and> (\<exists>v. fst (fetchDiscussions p config org repos w) = Inr v
        \<and> (\<forall>e. fst (fetchDiscussions_body p config org repos w) = Inl e \<longrightarrow> v = []))
   \<and> (\<exists>v. fst (getOrgRepositories p config org w) = Inr v
        \<and> (\<forall>e. fst (getOrgRepositories_body p config org w) = Inl e \<longrightarrow> v = []))
   \<and> (\<exists>v. fst (fetchOrganization p config org w) = Inr v
        \<and> (\<forall>e. fst (githubFetch p config (''/orgs/'' @ org) w) = Inl e \<longrightarrow> v = JNull))
   \<and> (\<exists>v. fst (fetchReadme p config org repo w) = Inr v
        \<and> (\<forall>e. fst (fetchReadme_body p config org repo w) = Inl e \<longrightarrow> v = JNull))"
  unfolding fetchIssues_def fetchPullRequests_def fetchDiscussions_def getOrgRepositories_def
    fetchOrganization_def fetchReadme_def
  using try_catch_result [of "fetchIssues_body p config org st repos w" "[]"]
    try_catch_result [of "fetchPullRequests_body p config org st repos w" "[]"]
    try_catch_result [of "fetchDiscussions_body p config org repos w" "[]"]
    try_catch_result [of "getOrgRepositories_body p config org w" "[]"]
    try_catch_result [of "githubFetch p config (''/orgs/'' @ org) w" JNull]
    try_catch_result [of "fetchReadme_body p config org repo w" JNull]
  by blast

lemma offline_bodies:
  "fst (fetchIssues_body offline_platform sample_config ''o'' ''open'' [] sample_world)
     = Inl TypeError"
  "fst (fetchPullRequests_body offline_platform sample_config ''o'' ''open'' [] sample_world)
     = Inl TypeError"
  "fst (getOrgRepositories_body offline_platform sample_config ''o'' sample_world)
     = Inl TypeError"
  "fst (githubFetch offline_platform sample_config (''/orgs/'' @ ''o'') sample_world)
     = Inl TypeError"
  "fst (fetchReadme_body offline_platform sample_config ''o'' ''a'' sample_world)
     = Inl TypeError"
  by code_simp+

lemma odd_body:
  "fst (fetchDiscussions_body odd_platform sample_config ''o'' [''a''] sample_world)
     = Inl TypeError"
  by code_simp

theorem fetchers_never_raise_witness:
  "fst (fetchIssues offline_platform sample_config ''o'' ''open'' [] sample_world) = Inr []
   \<and> fst (fetchPullRequests offline_platform sample_config ''o'' ''open'' [] sample_world)
       = Inr []
   \<and> fst (fetchDiscussions odd_platform sample_config ''o'' [''a''] sample_world) = Inr []
   \<and> fst (getOrgRepositories offline_platform sample_config ''o'' sample_world) = Inr []
   \<and> fst (fetchOrganization offline_platform sample_config ''o'' sample_world) = Inr JNull
   \<and> fst (fetchReadme offline_platform sample_config ''o'' ''a'' sample_world) = Inr JNull"
  using fetchers_never_raise
          [where p = offline_platform and config = sample_config and org = "''o''"
             and st = "''open''" and repos = "[]" and w = sample_world and repo = "''a''"]
        fetchers_never_raise
          [where p = odd_platform and config = sample_config and org = "''o''"
             and st = "''open''" and repos = "[''a'']" and w = sample_world and repo = "''a''"]
  by (simp only: offline_bodies odd_body) auto

section \<open>Properties of the user exclusion\<close>

text \<open>
  C7. Whenever \<open>filterByUser\<close> returns, it returns the items whose login does not equal an
  excluded username up to letter case, in their order; it returns whenever every login is
  a string or absent, as \<open>GitHubItem\<close> declares. The lists that \<open>fetchIssues\<close>,
  \<open>fetchPullRequests\<close> and \<open>fetchDiscussions\<close> return hold no item whose login equals an
  excluded username up to letter case.
\<close>

theorem filterByUser_excludes:
  "(\<forall>ys. filterByUser config items = Inr ys \<longrightarrow>
         ys = filter (\<lambda>x. \<not> matchesExcluded config x) items)
   \<and> ((\<forall>x\<in>set items. loginIsString x) \<longrightarrow> (\<exists>ys. filterByUser config items = Inr ys))
   \<and> (\<exists>xs. fst (fetchIssues p config org st repos w) = Inr xs
            \<and> (\<forall>x\<in>set xs. \<not> matchesExcluded config x))
   \<and> (\<exists>xs. fst (fetchPullRequests p config org st repos w) = Inr xs
            \<and> (\<forall>x\<in>set xs. \<not> matchesExcluded config x))
   \<and> (\<exists>xs. fst (fetchDiscussions p config org repos w) = Inr xs
            \<and> (\<forall>x\<in>set xs. \<not> matchesExcluded config x))"
proof (intro conjI)
  show "\<forall>ys. filterByUser config items = Inr ys \<longrightarrow>
         ys = filter (\<lambda>x. \<not> matchesExcluded config x) items"
    using filterByUser_Inr by blast
  show "(\<forall>x\<in>set items. loginIsString x) \<longrightarrow> (\<exists>ys. filterByUser config items = Inr ys)"
    using filterByUser_defined by blast
  show "\<exists>xs. fst (fetchIssues p config org st repos w) = Inr xs
            \<and> (\<forall>x\<in>set xs. \<not> matchesExcluded config x)"
    using fetchIssues_items [of p config org st repos w] 
    by (cases "fetchIssues p config org st repos w") auto
  show "\<exists>xs. fst (fetchPullRequests p config org st repos w) = Inr xs
            \<and> (\<forall>x\<in>set xs. \<not> matchesExcluded config x)"
    using fetchPullRequests_items [of p config org st repos w] 
    by (cases "fetchPullRequests p config org st repos w") auto
  show "\<exists>xs. fst (fetchDiscussions p config org repos w) = Inr xs
            \<and> (\<forall>x\<in>set xs. \<not> matchesExcluded config x)"
    using fetchDiscussions_items [of p config org repos w] 
    by (cases "fetchDiscussions p config org repos w") auto
qed

lemma sample_filter:
  "filterByUser sample_config
     [sample_item 1 ''Bot'' ''2024-01-01'' ''a'' Issue,
      sample_item 2 ''alice'' ''2024-01-01'' ''a'' Issue]
   = Inr [sample_item 2 ''alice'' ''2024-01-01'' ''a'' Issue]"
  by code_simp

lemma sample_fetched:
  "fst (fetchIssues sample_platform sample_config ''o'' ''open'' [''a''] sample_world)
     = Inr [sample_item 2 ''alice'' ''2024-01-01'' ''a'' Issue,
            sample_item 3 ''bob'' ''2024-02-01'' ''a'' Issue]"
  "fst (fetchPullRequests sample_platform sample_config ''o'' ''open'' [''a''] sample_world)
     = Inr [sample_item 5 ''carol'' ''2024-02-01'' ''a'' Pr]"
  "fst (fetchDiscussions sample_platform sample_config ''o'' [''a''] sample_world)
     = Inr [sample_discussion_item 1 ''2024-01-01'', sample_discussion_item 1 ''2024-02-01'']"
  by code_simp+

theorem filterByUser_excludes_witness:
  "list_all loginIsString
     [sample_item 1 ''Bot'' ''2024-01-01'' ''a'' Issue,
      sample_item 2 ''alice'' ''2024-01-01'' ''a'' Issue]
   \<and> [sample_item 2 ''alice'' ''2024-01-01'' ''a'' Issue]
       = filter (\<lambda>x. \<not> matchesExcluded sample_config x)
           [sample_item 1 ''Bot'' ''2024-01-01'' ''a'' Issue,
            sample_item 2 ''alice'' ''2024-01-01'' ''a'' Issue]
   \<and> map (matchesExcluded sample_config)
         [sample_item 2 ''alice'' ''2024-01-01'' ''a'' Issue,
          sample_item 3 ''bob'' ''2024-02-01'' ''a'' Issue,
          sample_item 5 ''carol'' ''2024-02-01'' ''a'' Pr,
          sample_discussion_item 1 ''2024-01-01'',
          sample_discussion_item 1 ''2024-02-01'']
       = [False, False, False, False, False]"
proof -
  have typed: "\<forall>x\<in>set [sample_item 1 ''Bot'' ''2024-01-01'' ''a'' Issue,
              sample_item 2 ''alice'' ''2024-01-01'' ''a'' Issue]. loginIsString x"
    by (simp add: loginIsString_def sample_item_def)
  from filterByUser_excludes
         [where config = sample_config and p = sample_platform and org = "''o''"
            and st = "''open''" and repos = "[''a'']" and w = sample_world
            and items = "[sample_item 1 ''Bot'' ''2024-01-01'' ''a'' Issue,
                          sample_item 2 ''alice'' ''2024-01-01'' ''a'' Issue]"]
  show ?thesis
    unfolding sample_filter sample_fetched using typed by simp
qed

section \<open>Properties of the transport\<close>

lemma getCached_keeps: "sent (snd (getCached k w)) = sent w" "now (snd (getCached k w)) = now w"
  by (auto simp: getCached_def split: option.splits)

lemma githubFetch_not_ok:
  assumes "\<not> truthy (fst (getCached (''rest:'' @ endpoint) w))"
    and "fst (network p (sent w) (restRequest config endpoint)) = Inr resp"
    and "\<not> ok resp"
  shows "fst (githubFetch p config endpoint w)
           = Inl (Error (''GitHub API request failed: '' @ statusText resp))"
    and "cache (snd (githubFetch p config endpoint w))
           = cache (snd (getCached (''rest:'' @ endpoint) w))"
proof -
  obtain c w1 where g: "getCached (''rest:'' @ endpoint) w = (c, w1)"
    by (cases "getCached (''rest:'' @ endpoint) w")
  then have s: "sent w1 = sent w" using getCached_keeps(1) [of "''rest:'' @ endpoint" w] by simp
  obtain dt where n: "network p (sent w) (restRequest config endpoint) = (Inr resp, dt)"
    using assms(2) by (cases "network p (sent w) (restRequest config endpoint)") simp
  from g s n assms(1,3)
  have "githubFetch p config endpoint w
        = (Inl (Error (''GitHub API request failed: '' @ statusText resp)),
           w1\<lparr>now := now w1 + dt, sent := sent w1 @ [restRequest config endpoint]\<rparr>)"
    by (simp add: githubFetch_def fetch_def)
  with g show "fst (githubFetch p config endpoint w)
           = Inl (Error (''GitHub API request failed: '' @ statusText resp))"
    and "cache (snd (githubFetch p config endpoint w))
           = cache (snd (getCached (''rest:'' @ endpoint) w))"
    by simp_all
qed

lemma githubGraphQL_not_ok:
  assumes "\<not> truthy (fst (getCached (graphqlKey p query variables) w))"
    and "fst (network p (sent w) (graphqlRequest p config query variables)) = Inr resp"
    and "\<not> ok resp"
  shows "fst (githubGraphQL p config query variables w)
           = Inl (Error (''GitHub GraphQL request failed: '' @ statusText resp))"
    and "cache (snd (githubGraphQL p config query variables w))
           = cache (snd (getCached (graphqlKey p query variables) w))"
proof -
  obtain c w1 where g: "getCached (graphqlKey p query variables) w = (c, w1)"
    by (cases "getCached (graphqlKey p query variables) w")
  then have s: "sent w1 = sent w"
    using getCached_keeps(1) [of "graphqlKey p query variables" w] by simp
  obtain dt where n: "network p (sent w) (graphqlRequest p config query variables) = (Inr resp, dt)"
    using assms(2) by (cases "network p (sent w) (graphqlRequest p config query variables)") simp
  from g s n assms(1,3)
  have "githubGraphQL p config query variables w
        = (Inl (Error (''GitHub GraphQL request failed: '' @ statusText resp)),
           w1\<lparr>now := now w1 + dt, sent := sent w1 @ [graphqlRequest p config query variables]\<rparr>)"
    by (simp add: githubGraphQL_def fetch_def)
  with g show "fst (githubGraphQL p config query variables w)
           = Inl (Error (''GitHub GraphQL request failed: '' @ statusText resp))"
    and "cache (snd (githubGraphQL p config query variables w))
           = cache (snd (getCached (graphqlKey p query variables) w))"
    by simp_all
qed

text \<open>
  C8, as amended. A REST or GraphQL request that is sent (the cache gave nothing truthy) and
  is answered with a status outside 200..299 makes \<open>githubFetch\<close>, respectively
  \<open>githubGraphQL\<close>, fail with an \<open>Error\<close> whose message is a fixed prefix followed by the
  status text of the response. The error depends on nothing else of the response: the
  status code is not in it, and the body is not parsed (the result is the same where the
  body is not JSON). Nothing is stored in the cache.
\<close>

theorem transport_error_carries_status_text:
  "(\<not> truthy (fst (getCached (''rest:'' @ endpoint) w))
      \<and> fst (network p (sent w) (restRequest config endpoint)) = Inr resp \<and> \<not> ok resp
    \<longrightarrow> fst (githubFetch p config endpoint w)
          = Inl (Error (''GitHub API request failed: '' @ statusText resp))
        \<and> cache (snd (githubFetch p config endpoint w))
          = cache (snd (getCached (''rest:'' @ endpoint) w)))
   \<and> (\<not> truthy (fst (getCached (graphqlKey p query variables) w))
      \<and> fst (network p (sent w) (graphqlRequest p config query variables)) = Inr resp' \<and> \<not> ok resp'
    \<longrightarrow> fst (githubGraphQL p config query variables w)
          = Inl (Error (''GitHub GraphQL request failed: '' @ statusText resp'))
        \<and> cache (snd (githubGraphQL p config query variables w))
          = cache (snd (getCached (graphqlKey p query variables) w)))"
  using githubFetch_not_ok [of endpoint w p config resp]
    githubGraphQL_not_ok [of p query variables w config resp']
  by blast

theorem transport_error_carries_status_text_witness:
  "fst (githubFetch sample_platform sample_config ''/repos/o/down/readme'' sample_world)
     = Inl (Error ''GitHub API request failed: Internal Server Error'')
   \<and> fst (githubGraphQL sample_platform sample_config discussionsQuery
            (JObj [(''owner'', JStr ''o''), (''repo'', JStr ''down'')]) sample_world)
     = Inl (Error ''GitHub GraphQL request failed: Internal Server Error'')"
  using transport_error_carries_status_text
    [of "''/repos/o/down/readme''" sample_world sample_platform sample_config
        "\<lparr>status = 500, statusText = ''Internal Server Error'', json = None\<rparr>"
        discussionsQuery "JObj [(''owner'', JStr ''o''), (''repo'', JStr ''down'')]"
        "\<lparr>status = 500, statusText = ''Internal Server Error'', json = None\<rparr>"]
  by (simp add: getCached_def sample_world_def sample_platform_def sample_answer_def
        restRequest_def graphqlRequest_def GITHUB_API_BASE_def GITHUB_GRAPHQL_API_def ok_def
        sample_repo_def)

text \<open>
  C8, as stated, fails: the errors for a response with status 404 and for one with status
  500 are the same, so the error does not carry the status code.
\<close>

theorem status_code_not_in_error:
  "fst (githubFetch (failing_platform 404) sample_config ''/orgs/o'' sample_world)
     = Inl (Error ''GitHub API request failed: '')
   \<and> fst (githubFetch (failing_platform 500) sample_config ''/orgs/o'' sample_world)
     = Inl (Error ''GitHub API request failed: '')
   \<and> fst (githubGraphQL (failing_platform 404) sample_config discussionsQuery JUndefined sample_world)
     = Inl (Error ''GitHub GraphQL request failed: '')
   \<and> fst (githubGraphQL (failing_platform 500) sample_config discussionsQuery JUndefined sample_world)
     = Inl (Error ''GitHub GraphQL request failed: '')"
  by (simp add: githubFetch_def githubGraphQL_def getCached_def sample_world_def
        failing_platform_def sample_platform_def fetch_def ok_def)

section \<open>Properties of the discussion identifiers\<close>






















section \<open>Falsy values in the cache\<close>

lemma githubFetch_hit:
  assumes "cache w (''rest:'' @ endpoint) = Some entry"
    and "now w - timestamp entry \<le> CACHE_TTL"
    and "truthy (data entry)"
  shows "githubFetch p config endpoint w = (Inr (data entry), w)"
  using assms by (simp add: githubFetch_def getCached_def)

lemma githubFetch_falsy:
  assumes "cache w (''rest:'' @ endpoint) = Some entry"
    and "now w - timestamp entry \<le> CACHE_TTL"
    and "\<not> truthy (data entry)"
  shows "sent (snd (githubFetch p config endpoint w)) = sent w @ [restRequest config endpoint]"
    and "network p (sent w) (restRequest config endpoint) = (Inr resp, dt) \<Longrightarrow> ok resp \<Longrightarrow>
         json resp = Some d \<Longrightarrow>
         githubFetch p config endpoint w =
           (Inr d, w\<lparr>cache := (cache w)(''rest:'' @ endpoint \<mapsto>
                                   \<lparr>data = d, timestamp = now w + dt\<rparr>),
                     now := now w + dt,
                     sent := sent w @ [restRequest config endpoint]\<rparr>)"
proof -
  have g: "getCached (''rest:'' @ endpoint) w = (data entry, w)"
    using assms(1,2) by (simp add: getCached_def)
  obtain r dt' where n: "network p (sent w) (restRequest config endpoint) = (r, dt')"
    by (cases "network p (sent w) (restRequest config endpoint)")
  show "sent (snd (githubFetch p config endpoint w)) = sent w @ [restRequest config endpoint]"
    using g n assms(3)
    by (cases r) (auto simp: githubFetch_def fetch_def setCache_def split: option.splits)
  show "network p (sent w) (restRequest config endpoint) = (Inr resp, dt) \<Longrightarrow> ok resp \<Longrightarrow>
         json resp = Some d \<Longrightarrow>
         githubFetch p config endpoint w =
           (Inr d, w\<lparr>cache := (cache w)(''rest:'' @ endpoint \<mapsto>
                                   \<lparr>data = d, timestamp = now w + dt\<rparr>),
                     now := now w + dt,
                     sent := sent w @ [restRequest config endpoint]\<rparr>)"
    using g assms(3) by (simp add: githubFetch_def fetch_def setCache_def)
qed

lemma githubGraphQL_hit:
  assumes "cache w (graphqlKey p query variables) = Some entry"
    and "now w - timestamp entry \<le> CACHE_TTL"
    and "truthy (data entry)"
  shows "githubGraphQL p config query variables w = (Inr (data entry), w)"
  using assms by (simp add: githubGraphQL_def getCached_def)

lemma githubGraphQL_falsy:
  assumes "cache w (graphqlKey p query variables) = Some entry"
    and "now w - timestamp entry \<le> CACHE_TTL"
    and "\<not> truthy (data entry)"
  shows "sent (snd (githubGraphQL p config query variables w))
           = sent w @ [graphqlRequest p config query variables]"
    and "network p (sent w) (graphqlRequest p config query variables) = (Inr resp, dt) \<Longrightarrow>
         ok resp \<Longrightarrow> json resp = Some result \<Longrightarrow> get_prop result ''errors'' = Inr errors \<Longrightarrow>
         \<not> truthy errors \<Longrightarrow> get_prop result ''data'' = Inr d \<Longrightarrow>
         githubGraphQL p config query variables w =
           (Inr d, w\<lparr>cache := (cache w)(graphqlKey p query variables \<mapsto>
                                   \<lparr>data = d, timestamp = now w + dt\<rparr>),
                     now := now w + dt,
                     sent := sent w @ [graphqlRequest p config query variables]\<rparr>)"
proof -
  have g: "getCached (graphqlKey p query variables) w = (data entry, w)"
    using assms(1,2) by (simp add: getCached_def)
  obtain r dt' where n: "network p (sent w) (graphqlRequest p config query variables) = (r, dt')"
    by (cases "network p (sent w) (graphqlRequest p config query variables)")
  show "sent (snd (githubGraphQL p config query variables w))
           = sent w @ [graphqlRequest p config query variables]"
    using g n assms(3)
    by (cases r)
       (auto simp: githubGraphQL_def fetch_def setCache_def split: option.splits sum.splits)
  show "network p (sent w) (graphqlRequest p config query variables) = (Inr resp, dt) \<Longrightarrow>
         ok resp \<Longrightarrow> json resp = Some result \<Longrightarrow> get_prop result ''errors'' = Inr errors \<Longrightarrow>
         \<not> truthy errors \<Longrightarrow> get_prop result ''data'' = Inr d \<Longrightarrow>
         githubGraphQL p config query variables w =
           (Inr d, w\<lparr>cache := (cache w)(graphqlKey p query variables \<mapsto>
                                   \<lparr>data = d, timestamp = now w + dt\<rparr>),
                     now := now w + dt,
                     sent := sent w @ [graphqlRequest p config query variables]\<rparr>)"
    using g assms(3) by (simp add: githubGraphQL_def fetch_def setCache_def)
qed

text \<open>
  C10. The cache holds for the key of a REST endpoint, or of a GraphQL query, an entry that
  is within its time to live. \<open>getCached\<close> returns its data and leaves the entry in place.
  Where the data is truthy, \<open>githubFetch\<close> (\<open>githubGraphQL\<close>) returns it and changes
  nothing: no request is sent. Where the data is falsy, the request is sent all the same,
  and an answer that is OK and parses (for GraphQL: without \<open>errors\<close>) is returned and
  overwrites the entry, with the time after the request as its timestamp.
\<close>

theorem falsy_cached_value_is_a_miss:
  "(cache w (''rest:'' @ endpoint) = Some entry \<and> now w - timestamp entry \<le> CACHE_TTL \<longrightarrow>
      getCached (''rest:'' @ endpoint) w = (data entry, w)
    \<and> (truthy (data entry) \<longrightarrow> githubFetch p config endpoint w = (Inr (data entry), w))
    \<and> (\<not> truthy (data entry) \<longrightarrow>
          sent (snd (githubFetch p config endpoint w)) = sent w @ [restRequest config endpoint]
        \<and> (network p (sent w) (restRequest config endpoint) = (Inr resp, dt) \<and> ok resp
             \<and> json resp = Some d \<longrightarrow>
           githubFetch p config endpoint w =
             (Inr d, w\<lparr>cache := (cache w)(''rest:'' @ endpoint \<mapsto>
                                     \<lparr>data = d, timestamp = now w + dt\<rparr>),
                       now := now w + dt,
                       sent := sent w @ [restRequest config endpoint]\<rparr>))))
   \<and> (cache w (graphqlKey p query variables) = Some entry'
        \<and> now w - timestamp entry' \<le> CACHE_TTL \<longrightarrow>
      getCached (graphqlKey p query variables) w = (data entry', w)
    \<and> (truthy (data entry') \<longrightarrow>
          githubGraphQL p config query variables w = (Inr (data entry'), w))
    \<and> (\<not> truthy (data entry') \<longrightarrow>
          sent (snd (githubGraphQL p config query variables w))
            = sent w @ [graphqlRequest p config query variables]
        \<and> (network p (sent w) (graphqlRequest p config query variables) = (Inr resp', dt')
             \<and> ok resp' \<and> json resp' = Some result \<and> get_prop result ''errors'' = Inr errors
             \<and> \<not> truthy errors \<and> get_prop result ''data'' = Inr d' \<longrightarrow>
           githubGraphQL p config query variables w =
             (Inr d', w\<lparr>cache := (cache w)(graphqlKey p query variables \<mapsto>
                                      \<lparr>data = d', timestamp = now w + dt'\<rparr>),
                        now := now w + dt',
                        sent := sent w @ [graphqlRequest p config query variables]\<rparr>))))"
  using githubFetch_hit [where w = w and endpoint = endpoint and entry = entry and p = p
                           and config = config]
    githubFetch_falsy(1) [where w = w and endpoint = endpoint and entry = entry and p = p
                            and config = config]
    githubFetch_falsy(2) [where w = w and endpoint = endpoint and entry = entry and p = p
                            and config = config and resp = resp and dt = dt and d = d]
    githubGraphQL_hit [where w = w and p = p and query = query and variables = variables
                         and entry = entry' and config = config]
    githubGraphQL_falsy(1) [where w = w and p = p and query = query and variables = variables
                              and entry = entry' and config = config]
    githubGraphQL_falsy(2) [where w = w and p = p and query = query and variables = variables
                              and entry = entry' and config = config and resp = resp'
                              and dt = dt' and result = result and errors = errors and d = d']
    getCached_fresh [of w "''rest:'' @ endpoint" entry]
    getCached_fresh [of w "graphqlKey p query variables" entry']
  by blast

theorem falsy_cached_value_is_a_miss_witness:
  "getCached ''rest:/repos/o/b/pulls?state=open'' falsy_world = (JNull, falsy_world)
   \<and> githubFetch sample_platform sample_config ''/repos/o/b/pulls?state=open'' truthy_world
       = (Inr (JStr ''cached''), truthy_world)
   \<and> githubFetch sample_platform sample_config ''/repos/o/b/pulls?state=open'' falsy_world
       = (Inr (JArr []),
          falsy_world\<lparr>cache := (cache falsy_world)(''rest:/repos/o/b/pulls?state=open'' \<mapsto>
                                   \<lparr>data = JArr [], timestamp = 1040\<rparr>),
                      now := 1040,
                      sent := [restRequest sample_config ''/repos/o/b/pulls?state=open'']\<rparr>)
   \<and> githubGraphQL sample_platform sample_config discussionsQuery sample_variables truthy_world
       = (Inr (JStr ''cached''), truthy_world)
   \<and> fst (githubGraphQL sample_platform sample_config discussionsQuery sample_variables
             falsy_world)
       = Inr (JObj [(''repository'', JObj [(''discussions'', JObj [(''nodes'', JArr [])])])])
   \<and> sent (snd (githubGraphQL sample_platform sample_config discussionsQuery sample_variables
                  falsy_world))
       = [graphqlRequest sample_platform sample_config discussionsQuery sample_variables]"
proof -
  let ?ep = "''/repos/o/b/pulls?state=open''"
  let ?key = "graphqlKey sample_platform discussionsQuery sample_variables"
  let ?rq = "graphqlRequest sample_platform sample_config discussionsQuery sample_variables"
  let ?d = "JObj [(''repository'', JObj [(''discussions'', JObj [(''nodes'', JArr [])])])]"
  have w: "now falsy_world = 1000" "sent falsy_world = []"
    "now truthy_world = 1000" "sent truthy_world = []"
    by (simp_all add: falsy_world_def truthy_world_def sample_world_def)
  have ttl: "100 \<le> CACHE_TTL" by (simp add: CACHE_TTL_def)
  have c1: "cache falsy_world ''rest:/repos/o/b/pulls?state=open'' = Some \<lparr>data = JNull, timestamp = 900\<rparr>"
    "cache truthy_world ''rest:/repos/o/b/pulls?state=open'' = Some \<lparr>data = JStr ''cached'', timestamp = 900\<rparr>"
    by (simp_all add: falsy_world_def truthy_world_def graphqlKey_def)
  have c2: "cache falsy_world ?key = Some \<lparr>data = JNum 0, timestamp = 900\<rparr>"
    "cache truthy_world ?key = Some \<lparr>data = JStr ''cached'', timestamp = 900\<rparr>"
    by (simp_all add: falsy_world_def truthy_world_def)
  have n1: "network sample_platform [] (restRequest sample_config ?ep)
            = (Inr \<lparr>status = 200, statusText = ''OK'', json = Some (JArr [])\<rparr>, 40)"
    by (simp add: sample_platform_def sample_answer_def restRequest_def GITHUB_API_BASE_def)
  have n2: "network sample_platform [] ?rq
            = (Inr \<lparr>status = 200, statusText = ''OK'', json = Some (sample_nodes [])\<rparr>, 40)"
    by (simp add: sample_platform_def sample_answer_def graphqlRequest_def sample_repo_def
          sample_variables_def GITHUB_GRAPHQL_API_def)
  have r: "get_prop (sample_nodes []) ''errors'' = Inr JUndefined"
    "get_prop (sample_nodes []) ''data'' = Inr ?d"
    by (simp_all add: sample_nodes_def)
  have o: "ok \<lparr>status = 200, statusText = ''OK'', json = j\<rparr>" for j
    by (simp add: ok_def)
  from falsy_cached_value_is_a_miss
          [where w = falsy_world and endpoint = ?ep
             and entry = "\<lparr>data = JNull, timestamp = 900\<rparr>"
             and p = sample_platform and config = sample_config
             and resp = "\<lparr>status = 200, statusText = ''OK'', json = Some (JArr [])\<rparr>"
             and dt = 40 and d = "JArr []"
             and query = discussionsQuery and variables = sample_variables
             and entry' = "\<lparr>data = JNum 0, timestamp = 900\<rparr>"
             and resp' = "\<lparr>status = 200, statusText = ''OK'', json = Some (sample_nodes [])\<rparr>"
             and dt' = 40 and result = "sample_nodes []" and errors = JUndefined
             and d' = ?d]
        falsy_cached_value_is_a_miss
          [where w = truthy_world and endpoint = ?ep
             and entry = "\<lparr>data = JStr ''cached'', timestamp = 900\<rparr>"
             and p = sample_platform and config = sample_config
             and query = discussionsQuery and variables = sample_variables
             and entry' = "\<lparr>data = JStr ''cached'', timestamp = 900\<rparr>"]
  show ?thesis
    by (simp add: w ttl c1 c2 n1 n2 r o)
qed

end
